theory Spec2Isabelle
  imports Complex_Main "HOL-Library.Word" "HOL-Library.Sublist" "HOL-Library.Log_Nat"
begin

section \<open>The AI Shorts generator: the state of \<^verbatim>\<open>App.tsx\<close> and its handlers\<close>

text \<open>
  The component \<^verbatim>\<open>App\<close> keeps ten pieces of React state and defines one mount effect and
  seven handlers. Five of them are asynchronous. Such a handler runs up to its first
  \<^verbatim>\<open>await\<close> when it is called; what follows an \<^verbatim>\<open>await\<close> runs later, on the state and under
  the view of that later moment, with the values the handler's closure took from the render
  in which it was called. So a handler is embedded as its segments: a start, and for every
  \<^verbatim>\<open>await\<close> the continuation that runs when the awaited call settles. A handler that is
  waiting is a \<open>task\<close>; the system is the state together with the tasks in flight, and any
  of them may be resumed next.

  Everything the handlers call outside \<^verbatim>\<open>App.tsx\<close> (the generation service, the audio
  utilities, the project store, \<^verbatim>\<open>Date.now\<close>, \<^verbatim>\<open>Math.random\<close>, the DOM) is a field of the
  environment record \<open>Env\<close>: a call either returns a value (\<open>Inr\<close>) or throws (\<open>Inl\<close>).
  The modules of the repository are taken at their declared types. What comes from a file
  is any JSON value, and so are the fields that an import copies from it.
\<close>

subsection \<open>Strings\<close>

text \<open>
  A JavaScript string is a sequence of UTF-16 code units. \<open>js\<close> turns an ASCII literal of
  the source into that representation.
\<close>

type_synonym jsstring = "16 word list"

definition js :: "string \<Rightarrow> jsstring" where
  "js s = map (\<lambda>c. of_nat (of_char c)) s"

text \<open>JavaScript truthiness of a string, and \<^verbatim>\<open>a || b\<close> on strings.\<close>

definition truthy :: "jsstring \<Rightarrow> bool" where
  "truthy s \<longleftrightarrow> s \<noteq> []"

definition js_or :: "jsstring \<Rightarrow> jsstring \<Rightarrow> jsstring" where
  "js_or a b = (if truthy a then a else b)"

text \<open>
  \<^verbatim>\<open>String.prototype.trim\<close> removes the code units of WhiteSpace and LineTerminator
  (ECMA-262) from both ends.
\<close>

definition isWhiteSpace :: "16 word \<Rightarrow> bool" where
  "isWhiteSpace c \<longleftrightarrow>
     c = 0x0009 \<or> c = 0x000A \<or> c = 0x000B \<or> c = 0x000C \<or> c = 0x000D \<or> c = 0x0020 \<or>
     c = 0x00A0 \<or> c = 0x1680 \<or> (0x2000 \<le> c \<and> c \<le> 0x200A) \<or> c = 0x2028 \<or> c = 0x2029 \<or>
     c = 0x202F \<or> c = 0x205F \<or> c = 0x3000 \<or> c = 0xFEFF"

definition trim :: "jsstring \<Rightarrow> jsstring" where
  "trim s = rev (dropWhile isWhiteSpace (rev (dropWhile isWhiteSpace s)))"

definition startsWith :: "jsstring \<Rightarrow> jsstring \<Rightarrow> bool" where
  "startsWith s t \<longleftrightarrow> take (length t) s = t"

text \<open>\<^verbatim>\<open>s.split(sep)\<close> for a separator of one code unit: the result is never empty.\<close>

fun split :: "16 word \<Rightarrow> jsstring \<Rightarrow> jsstring list" where
  "split sep [] = [[]]"
| "split sep (c # cs) =
     (if c = sep then [] # split sep cs
      else (case split sep cs of [] \<Rightarrow> [[c]] | l # ls \<Rightarrow> (c # l) # ls))"

fun join :: "jsstring \<Rightarrow> jsstring list \<Rightarrow> jsstring" where
  "join sep [] = []"
| "join sep [l] = l"
| "join sep (l # m # ls) = l @ sep @ join sep (m # ls)"

text \<open>The scene marker of line 76, U+0B95 U+0BBE U+0B9F U+0BCD U+0B9A U+0BBF and a colon.\<close>

definition sceneMarker :: jsstring where
  "sceneMarker = [0x0B95, 0x0BBE, 0x0B9F, 0x0BCD, 0x0B9A, 0x0BBF, 0x003A]"

text \<open>Lines 74 to 77.\<close>

definition cleanedScriptForVoiceover :: "jsstring \<Rightarrow> jsstring" where
  "cleanedScriptForVoiceover script =
     join (js '' '')
       (filter (\<lambda>line. \<not> startsWith (trim line) sceneMarker) (split 0x000A script))"

text \<open>
  The voiceover text in the words of the specification: the script is cut into lines at
  every line feed by a left-to-right scan, a line is dropped when the marker is a prefix
  of the line without its surrounding white space, and every kept line but the first is
  preceded by one space.
\<close>

fun scan_lines :: "jsstring \<Rightarrow> jsstring \<Rightarrow> jsstring list" where
  "scan_lines cur [] = [rev cur]"
| "scan_lines cur (c # cs) =
     (if c = 0x000A then rev cur # scan_lines [] cs else scan_lines (c # cur) cs)"

definition strip_white :: "jsstring \<Rightarrow> jsstring" where
  "strip_white l = dropWhile isWhiteSpace (rev (dropWhile isWhiteSpace (rev l)))"

definition is_scene_line :: "jsstring \<Rightarrow> bool" where
  "is_scene_line l \<longleftrightarrow> prefix sceneMarker (strip_white l)"

fun spaced :: "jsstring list \<Rightarrow> jsstring" where
  "spaced [] = []"
| "spaced (l # ls) = l @ concat (map (\<lambda>m. 0x0020 # m) ls)"

definition voiceover_spec :: "jsstring \<Rightarrow> jsstring" where
  "voiceover_spec script = spaced (filter (\<lambda>l. \<not> is_scene_line l) (scan_lines [] script))"

text \<open>
  The file name of an export (lines 166 and 167). The regular expression has the flags
  \<^verbatim>\<open>gi\<close> and no \<^verbatim>\<open>u\<close>: it works on single code units, and only the ASCII letters
  and digits escape the replacement, so the lower-casing that follows meets ASCII only.
\<close>

definition isAlnum :: "16 word \<Rightarrow> bool" where
  "isAlnum c \<longleftrightarrow> (0x30 \<le> c \<and> c \<le> 0x39) \<or> (0x41 \<le> c \<and> c \<le> 0x5A) \<or> (0x61 \<le> c \<and> c \<le> 0x7A)"

definition replaceNonAlnum :: "jsstring \<Rightarrow> jsstring" where
  "replaceNonAlnum s = map (\<lambda>c. if isAlnum c then c else 0x5F) s"

definition toLowerCase :: "jsstring \<Rightarrow> jsstring" where
  "toLowerCase s = map (\<lambda>c. if 0x41 \<le> c \<and> c \<le> 0x5A then c + 0x20 else c) s"

definition exportFileName :: "jsstring \<Rightarrow> jsstring" where
  "exportFileName topic =
     (let safeTopic = toLowerCase (replaceNonAlnum topic)
      in js ''aishort-project-'' @ take 20 safeTopic @ js ''.json'')"

subsection \<open>Numbers\<close>

text \<open>
  A JavaScript number is an IEEE 754 binary64 value; the finite ones are modelled as the
  reals they denote. \<open>toDouble\<close> rounds a real to the nearest such value, ties to the even
  significand: \<open>binade x\<close> is the exponent \<open>e\<close> with \<open>2\<^sup>e \<le> x < 2\<^sup>e\<^sup>+\<^sup>1\<close>, the spacing of the
  values around \<open>x\<close> is \<open>2\<^sup>e\<^sup>-\<^sup>5\<^sup>2\<close> and never less than \<open>2\<^sup>-\<^sup>1\<^sup>0\<^sup>7\<^sup>4\<close>. Overflow to infinity is
  not modelled. The product and the sum of two numbers are the rounded exact ones.
\<close>

definition binade :: "real \<Rightarrow> int" where
  "binade x = (if 1 \<le> x then bitlen \<lfloor>x\<rfloor> - 1 else - bitlen (\<lceil>1 / x\<rceil> - 1))"

definition roundHalfEven :: "real \<Rightarrow> int" where
  "roundHalfEven x =
     (if x - of_int \<lfloor>x\<rfloor> < 1 / 2 then \<lfloor>x\<rfloor>
      else if 1 / 2 < x - of_int \<lfloor>x\<rfloor> then \<lfloor>x\<rfloor> + 1
      else if even \<lfloor>x\<rfloor> then \<lfloor>x\<rfloor> else \<lfloor>x\<rfloor> + 1)"

definition toDouble :: "real \<Rightarrow> real" where
  "toDouble x =
     (if x = 0 then 0
      else (let q = max (binade \<bar>x\<bar> - 52) (- 1074)
            in sgn x * of_int (roundHalfEven (\<bar>x\<bar> / 2 powi q)) * 2 powi q))"

definition double_times :: "real \<Rightarrow> real \<Rightarrow> real" where
  "double_times a b = toDouble (a * b)"

definition double_plus :: "real \<Rightarrow> real \<Rightarrow> real" where
  "double_plus a b = toDouble (a + b)"

subsection \<open>Values\<close>

text \<open>
  The values a JSON text can denote. \<open>truthy_val\<close> is JavaScript truthiness, \<open>val_or\<close> is
  \<^verbatim>\<open>a || b\<close>. \<open>ownField\<close> reads one of the keys \<^verbatim>\<open>topic\<close>, \<^verbatim>\<open>scenes\<close>, \<^verbatim>\<open>audioData\<close>,
  \<^verbatim>\<open>title\<close>, \<^verbatim>\<open>hashtags\<close>: only an object can have them (of a key written twice the last
  one counts), every other value but \<^verbatim>\<open>null\<close> answers \<^verbatim>\<open>undefined\<close>, here \<open>None\<close>.
  Reading a property of \<^verbatim>\<open>null\<close> throws; the places that read one treat \<open>JNull\<close> first.
\<close>

datatype jsval =
    JNull
  | JBool bool
  | JNum real
  | JStr jsstring
  | JArr "jsval list"
  | JObj "(jsstring \<times> jsval) list"

fun truthy_val :: "jsval \<Rightarrow> bool" where
  "truthy_val JNull = False"
| "truthy_val (JBool b) = b"
| "truthy_val (JNum n) = (n \<noteq> 0)"
| "truthy_val (JStr s) = (s \<noteq> [])"
| "truthy_val (JArr xs) = True"
| "truthy_val (JObj kvs) = True"

definition val_or :: "jsval \<Rightarrow> jsval \<Rightarrow> jsval" where
  "val_or a b = (if truthy_val a then a else b)"

fun ownField :: "jsval \<Rightarrow> jsstring \<Rightarrow> jsval option" where
  "ownField (JObj kvs) k = map_of (rev kvs) k"
| "ownField v k = None"

text \<open>\<^verbatim>\<open>!x\<close> and \<^verbatim>\<open>x || ''\<close> for what such a read gives.\<close>

definition missing :: "jsval option \<Rightarrow> bool" where
  "missing x = (case x of None \<Rightarrow> True | Some v \<Rightarrow> \<not> truthy_val v)"

definition or_empty :: "jsval option \<Rightarrow> jsval" where
  "or_empty x = (case x of None \<Rightarrow> JStr [] | Some v \<Rightarrow> val_or v (JStr []))"

text \<open>
  \<^verbatim>\<open>!x.length\<close> for a value \<open>x\<close> other than \<^verbatim>\<open>null\<close>: an array and a string have a length,
  an object has one if it has the key, a number and a boolean have none.
\<close>

fun lengthFalsy :: "jsval \<Rightarrow> bool" where
  "lengthFalsy (JArr xs) = (xs = [])"
| "lengthFalsy (JStr s) = (s = [])"
| "lengthFalsy (JObj kvs) = missing (map_of (rev kvs) (js ''length''))"
| "lengthFalsy v = True"

subsection \<open>Data\<close>

text \<open>
  A thrown value is known by its \<^verbatim>\<open>message\<close>. A scene as the analysis returns it has no
  image yet; the scene object of lines 66 to 69 has the image as its fourth key. A
  \<^verbatim>\<open>SavedProject\<close> is what \<^verbatim>\<open>save\<close> and \<^verbatim>\<open>import\<close> build and the store hands back: a
  numeric id and five fields, which an import fills with whatever truthy values the file
  holds.
\<close>

datatype js_error = JsError (message: jsstring)

record SceneData =
  sceneDescription :: jsstring
  searchQuery :: jsstring
  duration :: real

definition sceneObject :: "SceneData \<Rightarrow> jsstring \<Rightarrow> jsval" where
  "sceneObject scene url =
     JObj [(js ''sceneDescription'', JStr (sceneDescription scene)),
           (js ''searchQuery'', JStr (searchQuery scene)),
           (js ''duration'', JNum (duration scene)),
           (js ''imageUrl'', JStr url)]"

record SavedProject =
  id_p :: int
  topic :: jsval
  scenes :: jsval
  audioData :: jsval
  title :: jsval
  hashtags :: jsval

text \<open>
  A text is taken for what \<^verbatim>\<open>JSON.parse\<close> makes of it: the value it denotes, or the
  \<^verbatim>\<open>SyntaxError\<close> thrown when it is not JSON. \<^verbatim>\<open>JSON.stringify(project, null, 2)\<close> writes
  the text that denotes the object with the six keys of the project.
\<close>

datatype file_text = JsonText jsval | NotJson js_error

definition JSON_parse :: "file_text \<Rightarrow> js_error + jsval" where
  "JSON_parse content = (case content of JsonText v \<Rightarrow> Inr v | NotJson e \<Rightarrow> Inl e)"

definition JSON_stringify :: "SavedProject \<Rightarrow> file_text" where
  "JSON_stringify project =
     JsonText (JObj [(js ''id'', JNum (of_int (SavedProject.id_p project))),
                     (js ''topic'', SavedProject.topic project),
                     (js ''scenes'', SavedProject.scenes project),
                     (js ''audioData'', SavedProject.audioData project),
                     (js ''title'', SavedProject.title project),
                     (js ''hashtags'', SavedProject.hashtags project)])"

text \<open>
  What the \<^verbatim>\<open>FileReader\<close> delivers for a chosen file (lines 184 to 188 and 218): a read
  error, a result that is not a string, or the text of the file.
\<close>

datatype read_result = ReadError | NotAString | FileText file_text

datatype AppState = Idle | Loading | Preview | Error

datatype db_call = PutProject SavedProject | DeleteProject int

text \<open>
  The state of the component (lines 13 to 22), and with it what the handlers hand to the
  outside: the operations issued to the project store and the files offered for download.
\<close>

record App =
  appState :: AppState
  loadingMessage :: jsstring
  errorMessage :: jsstring
  scenes :: jsval
  audioUrl :: jsstring
  currentTopic :: jsval
  title :: jsval
  hashtags :: jsval
  projects :: "SavedProject list"
  dbReady :: bool

record World = App +
  dbCalls :: "db_call list"
  downloads :: "(jsstring \<times> file_text) list"

definition world0 :: World where
  "world0 = \<lparr>appState = Idle, loadingMessage = [], errorMessage = [], App.scenes = JArr [],
     audioUrl = [], currentTopic = JStr [], App.title = JStr [], App.hashtags = JStr [],
     projects = [], dbReady = False, dbCalls = [], downloads = []\<rparr>"

subsection \<open>The environment\<close>

text \<open>
  \<open>Math_random\<close> is a number from 0 up to but not 1, \<open>Date_now\<close> a whole number of
  milliseconds. \<open>settleOrder\<close> lists the image requests of line 64 by position, in the
  order in which they settle. \<open>typeErrorOfNull\<close> is what the engine throws when a property
  of \<^verbatim>\<open>null\<close> is read. \<open>download env name content\<close> stands for lines 162 to 171, which
  hand the text to the browser under the name.
\<close>

record ('ctx, 'buf) Env =
  Date_now :: int
  Math_random :: real
  generateScriptFromTopic :: "jsstring \<Rightarrow> js_error + jsstring"
  generateTitleAndHashtags :: "jsstring \<Rightarrow> jsstring \<Rightarrow> js_error + jsstring \<times> jsstring"
  analyzeScriptForScenes :: "jsstring \<Rightarrow> js_error + SceneData list"
  generateImageForScene :: "jsstring \<Rightarrow> js_error + jsstring"
  settleOrder :: "nat list"
  generateVoiceover :: "jsstring \<Rightarrow> js_error + jsstring"
  newAudioContext :: "nat \<Rightarrow> js_error + 'ctx"
  decode :: "jsstring \<Rightarrow> js_error + 8 word list"
  decodeAudioData :: "8 word list \<Rightarrow> 'ctx \<Rightarrow> nat \<Rightarrow> nat \<Rightarrow> js_error + 'buf"
  audioBufferToWaveBlobUrl :: "'buf \<Rightarrow> js_error + jsstring"
  blobUrlToBase64 :: "jsstring \<Rightarrow> js_error + jsstring"
  base64ToBlobUrl :: "jsval \<Rightarrow> js_error + jsstring"
  initDB :: "js_error + unit"
  getProjectsFromDB :: "js_error + SavedProject list"
  saveProjectToDB :: "SavedProject \<Rightarrow> js_error + unit"
  deleteProjectFromDB :: "int \<Rightarrow> js_error + unit"
  typeErrorOfNull :: js_error
  download :: "jsstring \<Rightarrow> file_text \<Rightarrow> js_error + unit"

text \<open>
  \<^verbatim>\<open>Promise.all\<close> rejects with the first rejection to settle and otherwise fulfils with
  the values in the order of the promises. \<open>firstRejection\<close> walks the positions in the
  order given; a promise the order leaves out settles after the ones it lists.
\<close>

fun firstRejection :: "nat list \<Rightarrow> (js_error + 'a) list \<Rightarrow> js_error option" where
  "firstRejection [] ps = None"
| "firstRejection (i # order) ps =
     (if i < length ps
      then (case ps ! i of Inl e \<Rightarrow> Some e | Inr v \<Rightarrow> firstRejection order ps)
      else firstRejection order ps)"

definition Promise_all :: "nat list \<Rightarrow> (js_error + 'a) list \<Rightarrow> js_error + 'a list" where
  "Promise_all order ps =
     (case firstRejection (order @ [0 ..< length ps]) ps of
        Some e \<Rightarrow> Inl e
      | None \<Rightarrow> Inr (concat (map (\<lambda>p. case p of Inl e \<Rightarrow> [] | Inr v \<Rightarrow> [v]) ps)))"

text \<open>
  The id of lines 113 and 197, \<^verbatim>\<open>Date.now() + Math.floor(Math.random() * 1000)\<close>, in the
  arithmetic of numbers. It is a whole number and is kept as an integer.
\<close>

definition randomOffset :: "('ctx, 'buf) Env \<Rightarrow> int" where
  "randomOffset env = \<lfloor>double_times (Math_random env) 1000\<rfloor>"

definition freshId :: "('ctx, 'buf) Env \<Rightarrow> int" where
  "freshId env = \<lfloor>double_plus (of_int (Date_now env)) (of_int (randomOffset env))\<rfloor>"

subsection \<open>Tasks\<close>

text \<open>
  A task names the call a handler is waiting for and keeps what the rest of the handler
  needs: its arguments, its local constants, and for save and delete the values of the
  render in which the handler was called (all of the state for save, the list of projects
  for the two updates of lines 121 and 150).
\<close>

datatype 'ctx task =
    AwaitInitDB
  | AwaitProjects
  | AwaitScript jsstring
  | AwaitTitle jsstring jsstring
  | AwaitScenes jsstring
  | AwaitImages jsstring "SceneData list"
  | AwaitVoiceover jsstring
  | AwaitDecode "8 word list" 'ctx
  | AwaitBase64 World
  | AwaitSavePut "SavedProject list" SavedProject
  | AwaitDelete "SavedProject list" int
  | AwaitFile read_result
  | AwaitImportPut SavedProject

subsection \<open>The mount effect\<close>

text \<open>Lines 24 to 41: the two awaits of \<^verbatim>\<open>initialize\<close> and its \<^verbatim>\<open>catch\<close>.\<close>

definition mount_catch :: "World \<Rightarrow> World \<times> 'ctx task option" where
  "mount_catch w =
     (w\<lparr>errorMessage := js ''Could not load saved projects. Please refresh the page.'',
        appState := Error\<rparr>, None)"

definition initDB_settled :: "('ctx, 'buf) Env \<Rightarrow> World \<Rightarrow> World \<times> 'ctx task option" where
  "initDB_settled env w =
     (case initDB env of
        Inl e \<Rightarrow> mount_catch w
      | Inr _ \<Rightarrow> (w\<lparr>dbReady := True\<rparr>, Some AwaitProjects))"

definition projects_settled :: "('ctx, 'buf) Env \<Rightarrow> World \<Rightarrow> World \<times> 'ctx task option" where
  "projects_settled env w =
     (case getProjectsFromDB env of
        Inl e \<Rightarrow> mount_catch w
      | Inr savedProjects \<Rightarrow> (w\<lparr>projects := savedProjects\<rparr>, None))"

subsection \<open>Generate\<close>

text \<open>
  Lines 43 to 95. The start is lines 44 to 50; the continuations follow the awaits of
  lines 50, 53, 58, 64, 79 and 84; \<open>generate_catch\<close> is the \<^verbatim>\<open>catch\<close> of lines 89 to 94.
\<close>

definition generate_catch :: "js_error \<Rightarrow> World \<Rightarrow> World \<times> 'ctx task option" where
  "generate_catch error w =
     (w\<lparr>errorMessage := js_or (message error) (js ''An unknown error occurred.''),
        appState := Error\<rparr>, None)"

definition handleGenerateVideo_start :: "jsstring \<Rightarrow> World \<Rightarrow> World \<times> 'ctx task option" where
  "handleGenerateVideo_start topic' w =
     (w\<lparr>appState := Loading, currentTopic := JStr topic', App.title := JStr [],
        App.hashtags := JStr [],
        loadingMessage := js ''Generating script from your topic...''\<rparr>,
      Some (AwaitScript topic'))"

definition script_settled ::
  "('ctx, 'buf) Env \<Rightarrow> jsstring \<Rightarrow> World \<Rightarrow> World \<times> 'ctx task option" where
  "script_settled env topic' w =
     (case generateScriptFromTopic env topic' of
        Inl e \<Rightarrow> generate_catch e w
      | Inr script \<Rightarrow>
          (w\<lparr>loadingMessage := js ''Creating title & hashtags...''\<rparr>,
           Some (AwaitTitle topic' script)))"

definition title_settled ::
  "('ctx, 'buf) Env \<Rightarrow> jsstring \<Rightarrow> jsstring \<Rightarrow> World \<Rightarrow> World \<times> 'ctx task option" where
  "title_settled env topic' script w =
     (case generateTitleAndHashtags env topic' script of
        Inl e \<Rightarrow> generate_catch e w
      | Inr (newTitle, newHashtags) \<Rightarrow>
          (w\<lparr>App.title := JStr newTitle, App.hashtags := JStr newHashtags,
             loadingMessage := js ''Analyzing your script...''\<rparr>,
           Some (AwaitScenes script)))"

definition scenes_settled ::
  "('ctx, 'buf) Env \<Rightarrow> jsstring \<Rightarrow> World \<Rightarrow> World \<times> 'ctx task option" where
  "scenes_settled env script w =
     (case analyzeScriptForScenes env script of
        Inl e \<Rightarrow> generate_catch e w
      | Inr sceneData \<Rightarrow>
          (w\<lparr>loadingMessage := js ''Generating visuals for your scenes...''\<rparr>,
           Some (AwaitImages script sceneData)))"

definition finalScenes :: "SceneData list \<Rightarrow> jsstring list \<Rightarrow> jsval" where
  "finalScenes sceneData generatedImageUrls =
     JArr (map (\<lambda>(scene, index). sceneObject scene (generatedImageUrls ! index))
             (zip sceneData [0 ..< length sceneData]))"

definition imageRequests ::
  "('ctx, 'buf) Env \<Rightarrow> SceneData list \<Rightarrow> (js_error + jsstring) list" where
  "imageRequests env sceneData =
     map (\<lambda>scene. generateImageForScene env (sceneDescription scene)) sceneData"

definition images_settled ::
  "('ctx, 'buf) Env \<Rightarrow> jsstring \<Rightarrow> SceneData list \<Rightarrow> World \<Rightarrow> World \<times> 'ctx task option" where
  "images_settled env script sceneData w =
     (case Promise_all (settleOrder env) (imageRequests env sceneData) of
        Inl e \<Rightarrow> generate_catch e w
      | Inr generatedImageUrls \<Rightarrow>
          (w\<lparr>App.scenes := finalScenes sceneData generatedImageUrls,
             loadingMessage := js ''Generating Tamil voiceover...''\<rparr>,
           Some (AwaitVoiceover (cleanedScriptForVoiceover script))))"

definition voiceover_settled ::
  "('ctx, 'buf) Env \<Rightarrow> jsstring \<Rightarrow> World \<Rightarrow> World \<times> 'ctx task option" where
  "voiceover_settled env spoken w =
     (case generateVoiceover env spoken of
        Inl e \<Rightarrow> generate_catch e w
      | Inr audioData' \<Rightarrow>
          (let w' = w\<lparr>loadingMessage := js ''Preparing your video...''\<rparr>
           in case newAudioContext env 24000 of
                Inl e \<Rightarrow> generate_catch e w'
              | Inr audioContext \<Rightarrow>
                  (case decode env audioData' of
                     Inl e \<Rightarrow> generate_catch e w'
                   | Inr decodedBytes \<Rightarrow> (w', Some (AwaitDecode decodedBytes audioContext)))))"

definition decode_settled ::
  "('ctx, 'buf) Env \<Rightarrow> 8 word list \<Rightarrow> 'ctx \<Rightarrow> World \<Rightarrow> World \<times> 'ctx task option" where
  "decode_settled env decodedBytes audioContext w =
     (case decodeAudioData env decodedBytes audioContext 24000 1 of
        Inl e \<Rightarrow> generate_catch e w
      | Inr audioBuffer \<Rightarrow>
          (case audioBufferToWaveBlobUrl env audioBuffer of
             Inl e \<Rightarrow> generate_catch e w
           | Inr url \<Rightarrow> (w\<lparr>audioUrl := url, appState := Preview\<rparr>, None)))"

subsection \<open>Restart, save, load, delete, export\<close>

text \<open>Lines 97 to 105.\<close>

definition handleRestart :: "World \<Rightarrow> World" where
  "handleRestart w =
     w\<lparr>appState := Idle, App.scenes := JArr [], audioUrl := [], errorMessage := [],
       currentTopic := JStr [], App.title := JStr [], App.hashtags := JStr []\<rparr>"

text \<open>
  Lines 107 to 128. The guard of line 108 stands before the \<^verbatim>\<open>try\<close>: when \<^verbatim>\<open>scenes\<close> is
  \<^verbatim>\<open>null\<close> the read of its length throws and the handler ends there, like the guard
  without a change of state. \<open>newSavedProject\<close> is the record of lines 112 to 119, built
  from the values of the render \<open>c\<close> in which save was called; line 121 appends to the list
  of that render.
\<close>

definition newSavedProject :: "('ctx, 'buf) Env \<Rightarrow> World \<Rightarrow> jsstring \<Rightarrow> SavedProject" where
  "newSavedProject env c audioData' =
     \<lparr>SavedProject.id_p = freshId env,
      SavedProject.topic = currentTopic c,
      SavedProject.scenes = App.scenes c,
      SavedProject.audioData = JStr audioData',
      SavedProject.title = App.title c,
      SavedProject.hashtags = App.hashtags c\<rparr>"

definition save_catch :: "World \<Rightarrow> World \<times> 'ctx task option" where
  "save_catch w =
     (w\<lparr>errorMessage := js ''Could not save the project. Please try again.'',
        appState := Error\<rparr>, None)"

definition handleSaveProject_start :: "World \<Rightarrow> World \<times> 'ctx task option" where
  "handleSaveProject_start w =
     (if App.scenes w = JNull then (w, None)
      else if lengthFalsy (App.scenes w) \<or> \<not> truthy (audioUrl w) \<or>
              \<not> truthy_val (currentTopic w) \<or> \<not> dbReady w
      then (w, None)
      else (w, Some (AwaitBase64 w)))"

definition base64_settled :: "('ctx, 'buf) Env \<Rightarrow> World \<Rightarrow> World \<Rightarrow> World \<times> 'ctx task option" where
  "base64_settled env c w =
     (case blobUrlToBase64 env (audioUrl c) of
        Inl error \<Rightarrow> save_catch w
      | Inr audioData' \<Rightarrow>
          (let newProject = newSavedProject env c audioData'
           in (w\<lparr>dbCalls := dbCalls w @ [PutProject newProject]\<rparr>,
               Some (AwaitSavePut (projects c) newProject))))"

definition savePut_settled ::
  "('ctx, 'buf) Env \<Rightarrow> SavedProject list \<Rightarrow> SavedProject \<Rightarrow> World \<Rightarrow> World \<times> 'ctx task option" where
  "savePut_settled env captured newProject w =
     (case saveProjectToDB env newProject of
        Inl error \<Rightarrow> save_catch w
      | Inr _ \<Rightarrow> (w\<lparr>projects := captured @ [newProject]\<rparr>, None))"

text \<open>Lines 130 to 144; nothing is awaited.\<close>

definition handleLoadProject :: "('ctx, 'buf) Env \<Rightarrow> SavedProject \<Rightarrow> World \<Rightarrow> World" where
  "handleLoadProject env project w =
     (case base64ToBlobUrl env (SavedProject.audioData project) of
        Inl error \<Rightarrow>
          w\<lparr>errorMessage := js ''Could not load project. The data might be corrupted.'',
            appState := Error\<rparr>
      | Inr loadedAudioUrl \<Rightarrow>
          w\<lparr>App.scenes := SavedProject.scenes project,
            audioUrl := loadedAudioUrl,
            currentTopic := SavedProject.topic project,
            App.title := val_or (SavedProject.title project) (JStr []),
            App.hashtags := val_or (SavedProject.hashtags project) (JStr []),
            appState := Preview\<rparr>)"

text \<open>Lines 146 to 157; line 150 filters the list of the render in which delete was called.\<close>

definition handleDeleteProject_start :: "int \<Rightarrow> World \<Rightarrow> World \<times> 'ctx task option" where
  "handleDeleteProject_start ident w =
     (if \<not> dbReady w then (w, None)
      else (w\<lparr>dbCalls := dbCalls w @ [DeleteProject ident]\<rparr>,
            Some (AwaitDelete (projects w) ident)))"

definition delete_settled ::
  "('ctx, 'buf) Env \<Rightarrow> SavedProject list \<Rightarrow> int \<Rightarrow> World \<Rightarrow> World \<times> 'ctx task option" where
  "delete_settled env captured ident w =
     (case deleteProjectFromDB env ident of
        Inl error \<Rightarrow>
          (w\<lparr>errorMessage := js ''Could not delete the project. Please try again.'',
             appState := Error\<rparr>, None)
      | Inr _ \<Rightarrow>
          (w\<lparr>projects := filter (\<lambda>p. SavedProject.id_p p \<noteq> ident) captured\<rparr>, None))"

text \<open>
  Lines 159 to 177; nothing is awaited. A topic that is not a string has no \<^verbatim>\<open>replace\<close>,
  so line 166 throws before the file is offered.
\<close>

definition export_catch :: "World \<Rightarrow> World" where
  "export_catch w =
     w\<lparr>errorMessage := js ''Could not export the project. An unexpected error occurred.'',
       appState := Error\<rparr>"

definition handleExportProject :: "('ctx, 'buf) Env \<Rightarrow> SavedProject \<Rightarrow> World \<Rightarrow> World" where
  "handleExportProject env project w =
     (let projectJson = JSON_stringify project
      in case SavedProject.topic project of
           JStr t \<Rightarrow>
             (case download env (exportFileName t) projectJson of
                Inl error \<Rightarrow> export_catch w
              | Inr _ \<Rightarrow> w\<lparr>downloads := downloads w @ [(exportFileName t, projectJson)]\<rparr>)
         | _ \<Rightarrow> export_catch w)"

subsection \<open>Import\<close>

text \<open>
  Lines 179 to 223. Without a file the handler returns (line 181). \<open>importedNewProject\<close>
  is lines 192 to 203: on \<^verbatim>\<open>null\<close> the read of \<^verbatim>\<open>topic\<close> throws, a missing or falsy
  \<^verbatim>\<open>topic\<close>, \<^verbatim>\<open>scenes\<close> or \<^verbatim>\<open>audioData\<close> is refused, and else the record takes the three
  values as they are.
\<close>

definition import_catch :: "js_error \<Rightarrow> World \<Rightarrow> World \<times> 'ctx task option" where
  "import_catch error w =
     (w\<lparr>errorMessage := js ''Could not import project: '' @ message error,
        appState := Error\<rparr>, None)"

definition validationError :: js_error where
  "validationError =
     JsError (js ''Invalid project file. It's missing topic, scenes, or audio data.'')"

definition importedNewProject :: "('ctx, 'buf) Env \<Rightarrow> jsval \<Rightarrow> js_error + SavedProject" where
  "importedNewProject env importedProject =
     (if importedProject = JNull then Inl (typeErrorOfNull env)
      else if missing (ownField importedProject (js ''topic'')) \<or>
              missing (ownField importedProject (js ''scenes'')) \<or>
              missing (ownField importedProject (js ''audioData''))
      then Inl validationError
      else Inr \<lparr>SavedProject.id_p = freshId env,
                SavedProject.topic = the (ownField importedProject (js ''topic'')),
                SavedProject.scenes = the (ownField importedProject (js ''scenes'')),
                SavedProject.audioData = the (ownField importedProject (js ''audioData'')),
                SavedProject.title = or_empty (ownField importedProject (js ''title'')),
                SavedProject.hashtags = or_empty (ownField importedProject (js ''hashtags''))\<rparr>)"

definition handleImportProject_start :: "read_result option \<Rightarrow> World \<Rightarrow> World \<times> 'ctx task option" where
  "handleImportProject_start file w =
     (case file of None \<Rightarrow> (w, None) | Some r \<Rightarrow> (w, Some (AwaitFile r)))"

definition file_settled :: "('ctx, 'buf) Env \<Rightarrow> read_result \<Rightarrow> World \<Rightarrow> World \<times> 'ctx task option" where
  "file_settled env r w =
     (case r of
        ReadError \<Rightarrow>
          (w\<lparr>errorMessage := js ''Failed to read the project file.'', appState := Error\<rparr>, None)
      | NotAString \<Rightarrow> import_catch (JsError (js ''File could not be read.'')) w
      | FileText content \<Rightarrow>
          (case JSON_parse content of
             Inl err \<Rightarrow> import_catch err w
           | Inr importedProject \<Rightarrow>
               (case importedNewProject env importedProject of
                  Inl err \<Rightarrow> import_catch err w
                | Inr newProject \<Rightarrow>
                    (w\<lparr>dbCalls := dbCalls w @ [PutProject newProject]\<rparr>,
                     Some (AwaitImportPut newProject)))))"

definition importPut_settled ::
  "('ctx, 'buf) Env \<Rightarrow> SavedProject \<Rightarrow> World \<Rightarrow> World \<times> 'ctx task option" where
  "importPut_settled env newProject w =
     (case saveProjectToDB env newProject of
        Inl err \<Rightarrow> import_catch err w
      | Inr _ \<Rightarrow> (w\<lparr>projects := projects w @ [newProject]\<rparr>, None))"

subsection \<open>Resuming a task\<close>

text \<open>
  The awaited call settles as the environment of that moment has it, and the handler goes
  on, on the state \<open>w\<close> of that moment, to its next \<^verbatim>\<open>await\<close> or to its end.
\<close>

fun resume :: "('ctx, 'buf) Env \<Rightarrow> 'ctx task \<Rightarrow> World \<Rightarrow> World \<times> 'ctx task option" where
  "resume env AwaitInitDB w = initDB_settled env w"
| "resume env AwaitProjects w = projects_settled env w"
| "resume env (AwaitScript topic') w = script_settled env topic' w"
| "resume env (AwaitTitle topic' script) w = title_settled env topic' script w"
| "resume env (AwaitScenes script) w = scenes_settled env script w"
| "resume env (AwaitImages script sceneData) w = images_settled env script sceneData w"
| "resume env (AwaitVoiceover spoken) w = voiceover_settled env spoken w"
| "resume env (AwaitDecode decodedBytes audioContext) w =
     decode_settled env decodedBytes audioContext w"
| "resume env (AwaitBase64 c) w = base64_settled env c w"
| "resume env (AwaitSavePut captured newProject) w = savePut_settled env captured newProject w"
| "resume env (AwaitDelete captured ident) w = delete_settled env captured ident w"
| "resume env (AwaitFile r) w = file_settled env r w"
| "resume env (AwaitImportPut newProject) w = importPut_settled env newProject w"

text \<open>The number of awaits that a task still has before it, at most.\<close>

fun awaits :: "'ctx task \<Rightarrow> nat" where
  "awaits AwaitInitDB = 2"
| "awaits AwaitProjects = 1"
| "awaits (AwaitScript topic') = 6"
| "awaits (AwaitTitle topic' script) = 5"
| "awaits (AwaitScenes script) = 4"
| "awaits (AwaitImages script sceneData) = 3"
| "awaits (AwaitVoiceover spoken) = 2"
| "awaits (AwaitDecode decodedBytes audioContext) = 1"
| "awaits (AwaitBase64 c) = 2"
| "awaits (AwaitSavePut captured newProject) = 1"
| "awaits (AwaitDelete captured ident) = 1"
| "awaits (AwaitFile r) = 2"
| "awaits (AwaitImportPut newProject) = 1"

subsection \<open>A handler that runs alone\<close>

text \<open>
  \<open>settle\<close> resumes one handler until it has ended, every awaited call answered by the
  same environment and nothing else happening in between. The handlers below are the
  handlers of \<^verbatim>\<open>App.tsx\<close> run in this way on the state \<open>w\<close>.
\<close>

function settle :: "('ctx, 'buf) Env \<Rightarrow> World \<times> 'ctx task option \<Rightarrow> World" where
  "settle env (w, None) = w"
| "settle env (w, Some t) = settle env (resume env t w)"
  by pat_completeness auto
termination
proof (relation "measure (\<lambda>(env, r). case snd r of None \<Rightarrow> 0 | Some t \<Rightarrow> awaits t)")
  show "wf (measure (\<lambda>(env :: ('ctx, 'buf) Env, r :: World \<times> 'ctx task option).
      case snd r of None \<Rightarrow> 0 | Some t \<Rightarrow> awaits t))"
    by simp
next
  fix env :: "('ctx, 'buf) Env" and w :: World and t :: "'ctx task"
  show "((env, resume env t w), env, w, Some t)
      \<in> measure (\<lambda>(env, r). case snd r of None \<Rightarrow> 0 | Some t \<Rightarrow> awaits t)"
    by (cases t)
      (auto simp: initDB_settled_def projects_settled_def mount_catch_def script_settled_def
        title_settled_def scenes_settled_def images_settled_def voiceover_settled_def
        decode_settled_def generate_catch_def base64_settled_def savePut_settled_def
        save_catch_def delete_settled_def file_settled_def importPut_settled_def
        import_catch_def Let_def split: sum.splits read_result.splits)
qed

definition initialize :: "('ctx, 'buf) Env \<Rightarrow> World \<Rightarrow> World" where
  "initialize env w = settle env (w, Some AwaitInitDB)"

definition handleGenerateVideo :: "('ctx, 'buf) Env \<Rightarrow> jsstring \<Rightarrow> World \<Rightarrow> World" where
  "handleGenerateVideo env topic' w = settle env (handleGenerateVideo_start topic' w)"

definition handleSaveProject :: "('ctx, 'buf) Env \<Rightarrow> World \<Rightarrow> World" where
  "handleSaveProject env w = settle env (handleSaveProject_start w)"

definition handleDeleteProject :: "('ctx, 'buf) Env \<Rightarrow> int \<Rightarrow> World \<Rightarrow> World" where
  "handleDeleteProject env ident w = settle env (handleDeleteProject_start ident w)"

definition handleImportProject :: "('ctx, 'buf) Env \<Rightarrow> read_result option \<Rightarrow> World \<Rightarrow> World" where
  "handleImportProject env file w = settle env (handleImportProject_start file w)"

subsection \<open>The system\<close>

text \<open>
  The state and the tasks in flight. \<^verbatim>\<open>renderContent\<close> (lines 226 to 262) decides which
  handlers a user can call: the idle view offers generate, load, delete, export and
  import, with the list \<^verbatim>\<open>projects\<close> to choose from; the preview offers restart and save;
  the error view offers restart; the loader offers nothing. A call runs the start of the
  handler, and what it then waits for joins the tasks. Any task may be resumed at any
  time, whatever view is shown. An event carries the environment that its step meets.
\<close>

type_synonym 'ctx sys = "World \<times> 'ctx task list"

datatype ('ctx, 'buf) event =
    Generate jsstring
  | Restart
  | Save
  | Load "('ctx, 'buf) Env" SavedProject
  | Delete int
  | Export "('ctx, 'buf) Env" SavedProject
  | ChooseFile "read_result option"
  | Resume nat "('ctx, 'buf) Env"

fun offered :: "'ctx sys \<Rightarrow> ('ctx, 'buf) event \<Rightarrow> bool" where
  "offered (w, ts) (Generate topic') \<longleftrightarrow> appState w = Idle"
| "offered (w, ts) Restart \<longleftrightarrow> appState w = Preview \<or> appState w = Error"
| "offered (w, ts) Save \<longleftrightarrow> appState w = Preview"
| "offered (w, ts) (Load env project) \<longleftrightarrow> appState w = Idle \<and> project \<in> set (projects w)"
| "offered (w, ts) (Delete ident) \<longleftrightarrow> appState w = Idle"
| "offered (w, ts) (Export env project) \<longleftrightarrow> appState w = Idle \<and> project \<in> set (projects w)"
| "offered (w, ts) (ChooseFile file) \<longleftrightarrow> appState w = Idle"
| "offered (w, ts) (Resume k env) \<longleftrightarrow> k < length ts"

fun spawn :: "World \<times> 'ctx task option \<Rightarrow> 'ctx task list \<Rightarrow> 'ctx sys" where
  "spawn (w, None) ts = (w, ts)"
| "spawn (w, Some t) ts = (w, ts @ [t])"

fun resumed :: "World \<times> 'ctx task option \<Rightarrow> nat \<Rightarrow> 'ctx task list \<Rightarrow> 'ctx sys" where
  "resumed (w, None) k ts = (w, take k ts @ drop (Suc k) ts)"
| "resumed (w, Some t) k ts = (w, ts[k := t])"

fun react :: "('ctx, 'buf) event \<Rightarrow> 'ctx sys \<Rightarrow> 'ctx sys" where
  "react (Generate topic') (w, ts) = spawn (handleGenerateVideo_start topic' w) ts"
| "react Restart (w, ts) = (handleRestart w, ts)"
| "react Save (w, ts) = spawn (handleSaveProject_start w) ts"
| "react (Load env project) (w, ts) = (handleLoadProject env project w, ts)"
| "react (Delete ident) (w, ts) = spawn (handleDeleteProject_start ident w) ts"
| "react (Export env project) (w, ts) = (handleExportProject env project w, ts)"
| "react (ChooseFile file) (w, ts) = spawn (handleImportProject_start file w) ts"
| "react (Resume k env) (w, ts) = resumed (resume env (ts ! k) w) k ts"

fun play :: "('ctx, 'buf) event list \<Rightarrow> 'ctx sys \<Rightarrow> 'ctx sys option" where
  "play [] s = Some s"
| "play (e # es) s = (if offered s e then play es (react e s) else None)"

text \<open>The component is mounted: the mount effect has called \<^verbatim>\<open>initDB\<close> and waits.\<close>

definition sys0 :: "'ctx sys" where
  "sys0 = (world0, [AwaitInitDB])"

subsection \<open>What the claims speak of\<close>

text \<open>The changes of the presentation state of a handler that runs alone.\<close>

definition edges :: "(AppState \<times> AppState) list" where
  "edges = [(Idle, Loading), (Loading, Preview), (Loading, Error), (Idle, Preview),
            (Idle, Error), (Preview, Error), (Preview, Idle), (Error, Idle)]"

text \<open>The five edges the specification lists.\<close>

definition spec_edges :: "(AppState \<times> AppState) list" where
  "spec_edges = [(Idle, Loading), (Loading, Preview), (Loading, Error), (Idle, Error),
                 (Error, Idle)]"

text \<open>
  No handler overlaps another: at most one task is in flight, the view is still the one
  its handler was called from or has itself put up, and the user acts only when nothing is
  in flight.
\<close>

fun viewOf :: "'ctx task \<Rightarrow> AppState" where
  "viewOf AwaitInitDB = Idle"
| "viewOf AwaitProjects = Idle"
| "viewOf (AwaitScript topic') = Loading"
| "viewOf (AwaitTitle topic' script) = Loading"
| "viewOf (AwaitScenes script) = Loading"
| "viewOf (AwaitImages script sceneData) = Loading"
| "viewOf (AwaitVoiceover spoken) = Loading"
| "viewOf (AwaitDecode decodedBytes audioContext) = Loading"
| "viewOf (AwaitBase64 c) = Preview"
| "viewOf (AwaitSavePut captured newProject) = Preview"
| "viewOf (AwaitDelete captured ident) = Idle"
| "viewOf (AwaitFile r) = Idle"
| "viewOf (AwaitImportPut newProject) = Idle"

fun alone :: "'ctx sys \<Rightarrow> bool" where
  "alone (w, []) = True"
| "alone (w, [t]) = (appState w = viewOf t)"
| "alone (w, t # t' # ts) = False"

fun inTurn :: "'ctx sys \<Rightarrow> ('ctx, 'buf) event \<Rightarrow> bool" where
  "inTurn (w, ts) (Resume k env) = (k < length ts)"
| "inTurn (w, ts) e = (ts = [] \<and> offered (w, ts) e)"

text \<open>A run in which every event comes in its turn.\<close>

fun playInTurn :: "('ctx, 'buf) event list \<Rightarrow> 'ctx sys \<Rightarrow> 'ctx sys option" where
  "playInTurn [] s = Some s"
| "playInTurn (e # es) s = (if inTurn s e then playInTurn es (react e s) else None)"

text \<open>
  A stage of the generation throws \<open>e\<close>: the call that the task waits for rejects with
  \<open>e\<close>, or a step between it and the next await throws \<open>e\<close>. Of the image requests the
  one that rejects with \<open>e\<close> settles before any other that rejects.
\<close>

fun stage_throws :: "('ctx, 'buf) Env \<Rightarrow> 'ctx task \<Rightarrow> js_error \<Rightarrow> bool" where
  "stage_throws env (AwaitScript topic') e \<longleftrightarrow> generateScriptFromTopic env topic' = Inl e"
| "stage_throws env (AwaitTitle topic' script) e \<longleftrightarrow>
     generateTitleAndHashtags env topic' script = Inl e"
| "stage_throws env (AwaitScenes script) e \<longleftrightarrow> analyzeScriptForScenes env script = Inl e"
| "stage_throws env (AwaitImages script sceneData) e \<longleftrightarrow>
     (\<exists>i before after.
        settleOrder env = before @ i # after \<and> i < length sceneData \<and>
        generateImageForScene env (sceneDescription (sceneData ! i)) = Inl e \<and>
        (\<forall>j \<in> set before. j < length sceneData \<longrightarrow>
           (\<exists>url. generateImageForScene env (sceneDescription (sceneData ! j)) = Inr url)))"
| "stage_throws env (AwaitVoiceover spoken) e \<longleftrightarrow>
     generateVoiceover env spoken = Inl e \<or>
     (\<exists>audio. generateVoiceover env spoken = Inr audio \<and>
        (newAudioContext env 24000 = Inl e \<or>
         (\<exists>ctx. newAudioContext env 24000 = Inr ctx \<and> decode env audio = Inl e)))"
| "stage_throws env (AwaitDecode decodedBytes audioContext) e \<longleftrightarrow>
     decodeAudioData env decodedBytes audioContext 24000 1 = Inl e \<or>
     (\<exists>buffer. decodeAudioData env decodedBytes audioContext 24000 1 = Inr buffer \<and>
        audioBufferToWaveBlobUrl env buffer = Inl e)"
| "stage_throws env t e \<longleftrightarrow> False"

text \<open>
  The clock and the random draw as the language has them: \<^verbatim>\<open>Date.now()\<close> is a time value,
  a whole number of milliseconds from 0 (the year 1970) to 8640000000000000, and
  \<^verbatim>\<open>Math.random()\<close> is a number from 0 up to the largest one below 1.
\<close>

definition numbersInRange :: "('ctx, 'buf) Env \<Rightarrow> bool" where
  "numbersInRange env \<longleftrightarrow>
     0 \<le> Date_now env \<and> Date_now env \<le> 8640000000000000 \<and>
     0 \<le> Math_random env \<and> Math_random env \<le> 1 - 1 / 2 ^ 53"

text \<open>What the user reads after a failed validation (lines 193 and 210).\<close>

definition validationMessage :: jsstring where
  "validationMessage =
     js ''Could not import project: '' @
     js ''Invalid project file. It's missing topic, scenes, or audio data.''"

text \<open>
  A project that an import takes back as it is: topic, scenes and audio data are truthy,
  and title and hashtags are truthy or the empty string. Every project in the list and in
  the tasks is one, if the environment hands back no other: the store returns such
  projects, and the encoding of an audio handle is not empty.
\<close>

definition kept :: "jsval \<Rightarrow> bool" where
  "kept v \<longleftrightarrow> truthy_val v \<or> v = JStr []"







subsection \<open>Concrete environments\<close>

text \<open>
  An environment in which every call returns: a script of two scene lines and two spoken
  lines, two scenes, and a store that accepts every operation. The others differ from it
  in a call or two.
\<close>

definition demoScript :: jsstring where
  "demoScript = sceneMarker @ js '' kitchen'' @ [0x000A] @ js ''A robot cooks.'' @ [0x000A] @
     sceneMarker @ js '' table'' @ [0x000A] @ js ''It serves dinner.''"

definition env_ok :: "(unit, unit) Env" where
  "env_ok =
     \<lparr>Date_now = 1700000000000,
      Math_random = 1 / 2,
      generateScriptFromTopic = (\<lambda>t. Inr demoScript),
      generateTitleAndHashtags = (\<lambda>t s. Inr (js ''Robot chef'', js ''#robot #cooking'')),
      analyzeScriptForScenes = (\<lambda>s. Inr
         [\<lparr>sceneDescription = js ''kitchen'', searchQuery = js ''robot kitchen'', duration = 5\<rparr>,
          \<lparr>sceneDescription = js ''table'', searchQuery = js ''dinner table'', duration = 7\<rparr>]),
      generateImageForScene = (\<lambda>d. Inr (js ''data:image/png;base64,'' @ d)),
      settleOrder = [1, 0],
      generateVoiceover = (\<lambda>t. Inr (js ''AAAA'')),
      newAudioContext = (\<lambda>rate. Inr ()),
      decode = (\<lambda>t. Inr [0, 0, 0]),
      decodeAudioData = (\<lambda>bytes ctx rate channels. Inr ()),
      audioBufferToWaveBlobUrl = (\<lambda>b. Inr (js ''blob:wave'')),
      blobUrlToBase64 = (\<lambda>u. Inr (js ''UklGRg'')),
      base64ToBlobUrl = (\<lambda>t. Inr (js ''blob:loaded'')),
      initDB = Inr (),
      getProjectsFromDB = Inr [],
      saveProjectToDB = (\<lambda>p. Inr ()),
      deleteProjectFromDB = (\<lambda>i. Inr ()),
      typeErrorOfNull = JsError (js ''Cannot read properties of null (reading 'topic')''),
      download = (\<lambda>name content. Inr ())\<rparr>"

definition env_store_down :: "(unit, unit) Env" where
  "env_store_down =
     env_ok\<lparr>saveProjectToDB := (\<lambda>p. Inl (JsError (js ''QuotaExceededError''))),
            deleteProjectFromDB := (\<lambda>i. Inl (JsError (js ''TransactionInactiveError'')))\<rparr>"

definition env_rate_limited :: "(unit, unit) Env" where
  "env_rate_limited = env_ok\<lparr>analyzeScriptForScenes := (\<lambda>s. Inl (JsError (js ''rate limited'')))\<rparr>"

text \<open>Both image requests fail, each with its own message; the second settles first.\<close>

definition env_images_fail :: "(unit, unit) Env" where
  "env_images_fail =
     env_ok\<lparr>generateImageForScene := (\<lambda>d. Inl (JsError (js ''fail '' @ d)))\<rparr>"

definition env_later :: "(unit, unit) Env" where
  "env_later = env_ok\<lparr>Date_now := 1700000000400, Math_random := 1 / 10\<rparr>"

definition env_next :: "(unit, unit) Env" where
  "env_next = env_ok\<lparr>Date_now := 1700000003000, Math_random := 1 / 4\<rparr>"

text \<open>A draw whose exact product with 1000 lies just below 119 and rounds to 119.\<close>

definition env_rounding :: "(unit, unit) Env" where
  "env_rounding = env_ok\<lparr>Math_random := 535928355657089 / 2 ^ 52\<rparr>"

definition env_next_store_down :: "(unit, unit) Env" where
  "env_next_store_down =
     env_next\<lparr>saveProjectToDB := (\<lambda>p. Inl (JsError (js ''QuotaExceededError'')))\<rparr>"

text \<open>
  The state after the mount effect and a generation in \<open>env_ok\<close>, the project a save makes
  of it, and the idle state with that project in the list: saved from the preview, then
  restarted.
\<close>

definition demoTopic :: jsstring where
  "demoTopic = js ''A robot learns to cook''"

definition previewWorld :: World where
  "previewWorld = handleGenerateVideo env_ok demoTopic (initialize env_ok world0)"

text \<open>The same as events: the mount effect settles twice, then the generation runs.\<close>

definition toPreview :: "(unit, unit) event list" where
  "toPreview =
     [Resume 0 env_ok, Resume 0 env_ok, Generate demoTopic, Resume 0 env_ok, Resume 0 env_ok,
      Resume 0 env_ok, Resume 0 env_ok, Resume 0 env_ok, Resume 0 env_ok]"

definition demoProject :: SavedProject where
  "demoProject = newSavedProject env_ok previewWorld (js ''UklGRg'')"

definition libraryWorld :: World where
  "libraryWorld = handleRestart (handleSaveProject env_ok previewWorld)"

text \<open>A generation under way, and a save that the store refused.\<close>

definition loadingWorld :: World where
  "loadingWorld = fst (handleGenerateVideo_start demoTopic libraryWorld :: World \<times> unit task option)"

definition errorWorld :: World where
  "errorWorld = handleSaveProject env_store_down previewWorld"

text \<open>
  Files: the export of the saved project; the same without audio data; one with an empty
  list of scenes and neither title nor hashtags; one with the empty string for a topic;
  one that holds \<^verbatim>\<open>null\<close>; one whose scenes are the number 0.
\<close>

definition demoFile :: file_text where
  "demoFile = JSON_stringify demoProject"

definition noAudioFile :: file_text where
  "noAudioFile =
     JsonText (JObj [(js ''topic'', JStr (js ''no audio'')),
                     (js ''scenes'', SavedProject.scenes demoProject)])"

definition noScenesFile :: file_text where
  "noScenesFile =
     JsonText (JObj [(js ''id'', JNum 7), (js ''topic'', JStr (js ''empty'')),
                     (js ''scenes'', JArr []), (js ''audioData'', JStr (js ''UklGRg''))])"

definition noScenesProject :: SavedProject where
  "noScenesProject =
     \<lparr>SavedProject.id_p = 1700000003250, SavedProject.topic = JStr (js ''empty''),
      SavedProject.scenes = JArr [], SavedProject.audioData = JStr (js ''UklGRg''),
      SavedProject.title = JStr [], SavedProject.hashtags = JStr []\<rparr>"

definition emptyTopicFile :: file_text where
  "emptyTopicFile =
     JsonText (JObj [(js ''topic'', JStr []), (js ''scenes'', SavedProject.scenes demoProject),
                     (js ''audioData'', JStr (js ''UklGRg''))])"

definition nullFile :: file_text where
  "nullFile = JsonText JNull"

definition zeroScenesFile :: file_text where
  "zeroScenesFile =
     JsonText (JObj [(js ''topic'', JStr (js ''zero'')), (js ''scenes'', JNum 0),
                     (js ''audioData'', JStr (js ''UklGRg''))])"

text \<open>The saved project with the id of three seconds later.\<close>

definition secondProject :: SavedProject where
  "secondProject = demoProject\<lparr>SavedProject.id_p := 1700000003250\<rparr>"

section \<open>Properties\<close>

subsection \<open>The voiceover text\<close>

lemma split_not_Nil: "split sep s \<noteq> []"
  by (induction s) (auto split: list.splits)

lemma scan_lines_split:
  "scan_lines cur s = (case split 0x000A s of [] \<Rightarrow> [rev cur] | l # ls \<Rightarrow> (rev cur @ l) # ls)"
proof (induction s arbitrary: cur)
  case Nil
  then show ?case by simp
next
  case (Cons c cs)
  then show ?case
    using split_not_Nil [of "0x000A" cs] by (auto split: list.splits)
qed

lemma scan_lines_eq_split: "scan_lines [] s = split 0x000A s"
  using split_not_Nil [of "0x000A" s] by (simp add: scan_lines_split split: list.splits)

lemma spaced_eq_join: "spaced ls = join (js '' '') ls"
  by (induction "js '' ''" ls rule: join.induct) (simp_all add: js_def)

text \<open>Trimming the front and then the back is trimming the back and then the front.\<close>

lemma dropWhile_both_ends:
  "dropWhile P (rev (dropWhile P (rev l))) = rev (dropWhile P (rev (dropWhile P l)))"
proof (cases "dropWhile P l")
  case Nil
  then have "\<forall>x \<in> set l. P x" by (simp add: dropWhile_eq_Nil_conv)
  then have a: "dropWhile P (rev l) = []" by (simp add: dropWhile_eq_Nil_conv)
  show ?thesis unfolding a Nil by simp
next
  case (Cons y ys)
  then have ny: "\<not> P y" using hd_dropWhile [of P l] by auto
  have l: "l = takeWhile P l @ y # ys" using Cons takeWhile_dropWhile_id [of P l] by simp
  have "rev l = rev ys @ y # rev (takeWhile P l)"
    by (subst l) simp
  then have "dropWhile P (rev l) = dropWhile P (rev ys) @ y # rev (takeWhile P l)"
    using ny by (simp add: dropWhile_append3)
  then have "rev (dropWhile P (rev l)) = takeWhile P l @ y # rev (dropWhile P (rev ys))"
    by simp
  moreover have "\<And>x. x \<in> set (takeWhile P l) \<Longrightarrow> P x"
    by (auto dest: set_takeWhileD)
  ultimately have "dropWhile P (rev (dropWhile P (rev l))) = y # rev (dropWhile P (rev ys))"
    using ny by (simp add: dropWhile_append2)
  moreover have "rev (dropWhile P (rev (y # ys))) = y # rev (dropWhile P (rev ys))"
    using ny by (simp add: dropWhile_append3)
  ultimately show ?thesis using Cons by simp
qed

lemma strip_white_eq_trim: "strip_white l = trim l"
  by (simp add: strip_white_def trim_def dropWhile_both_ends)

lemma is_scene_line_iff: "is_scene_line l \<longleftrightarrow> startsWith (trim l) sceneMarker"
proof -
  have "prefix m s \<longleftrightarrow> take (length m) s = m" for m s :: jsstring
    by (metis append_eq_conv_conj prefix_def append_take_drop_id)
  then show ?thesis
    by (simp add: is_scene_line_def startsWith_def strip_white_eq_trim)
qed

text \<open>
  C6: for every script, the text handed to the voiceover stage is the script cut into
  lines at its line feeds, without the lines whose trimmed content begins with the scene
  marker, the remaining lines joined by single spaces.
\<close>

theorem voiceover_text_follows_spec:
  "cleanedScriptForVoiceover script = voiceover_spec script"
  by (simp add: cleanedScriptForVoiceover_def voiceover_spec_def scan_lines_eq_split
      spaced_eq_join is_scene_line_iff)

text \<open>
  A script of three lines, the second one a scene line indented by a space: the first and
  the third line remain.
\<close>

theorem voiceover_text_witness:
  "cleanedScriptForVoiceover
     (js ''ab'' @ [0x000A, 0x0020] @ sceneMarker @ js ''x'' @ [0x000A] @ js ''cd'') = js ''ab cd''"
  using voiceover_text_follows_spec
    [of "js ''ab'' @ [0x000A, 0x0020] @ sceneMarker @ js ''x'' @ [0x000A] @ js ''cd''"]
  by (simp add: voiceover_spec_def is_scene_line_def strip_white_def isWhiteSpace_def
      sceneMarker_def js_def)

subsection \<open>Numbers\<close>

lemma roundHalfEven_of_int [simp]: "roundHalfEven (of_int n) = n"
  by (simp add: roundHalfEven_def)

lemma roundHalfEven_nonneg: "0 \<le> x \<Longrightarrow> 0 \<le> roundHalfEven x"
  by (auto simp: roundHalfEven_def)

lemma roundHalfEven_le: "of_int (roundHalfEven x) \<le> x + 1 / 2"
  unfolding roundHalfEven_def by (auto; linarith)

lemma roundHalfEven_le_int: "x \<le> of_int n \<Longrightarrow> roundHalfEven x \<le> n"
proof -
  assume a: "x \<le> of_int n"
  have "\<lfloor>x\<rfloor> \<le> n" using a by (simp add: floor_le_iff)
  show ?thesis
  proof (cases "x = of_int \<lfloor>x\<rfloor>")
    case True
    then have "roundHalfEven x = \<lfloor>x\<rfloor>" by (metis roundHalfEven_of_int)
    with \<open>\<lfloor>x\<rfloor> \<le> n\<close> show ?thesis by simp
  next
    case False
    then have "of_int \<lfloor>x\<rfloor> < x" by (metis of_int_floor_le order_less_le)
    then have "\<lfloor>x\<rfloor> < n" using a by (metis floor_less_iff order_less_le_trans of_int_less_iff)
    moreover have "roundHalfEven x \<le> \<lfloor>x\<rfloor> + 1" by (simp add: roundHalfEven_def)
    ultimately show ?thesis by linarith
  qed
qed

lemma two_powi_pos [simp]: "0 < (2::real) powi q"
  by (simp add: power_int_def)

lemma toDouble_nonneg: "0 \<le> x \<Longrightarrow> 0 \<le> toDouble x"
  by (auto simp: toDouble_def Let_def sgn_if roundHalfEven_nonneg intro!: mult_nonneg_nonneg)

text \<open>A number below 512 is rounded to at most 512.\<close>

lemma binade_le_8: assumes "0 < x" "x < 512" shows "binade x \<le> 8"
proof (cases "1 \<le> x")
  case True
  have "\<lfloor>x\<rfloor> < 2 ^ 9" using assms by (simp add: floor_less_iff)
  then have "bitlen \<lfloor>x\<rfloor> \<le> 9"
    using bitlen_le_iff_power [of "\<lfloor>x\<rfloor>" 9] by simp
  with True show ?thesis by (simp add: binade_def)
next
  case False
  then show ?thesis using bitlen_nonneg [of "\<lceil>1 / x\<rceil> - 1"] by (simp add: binade_def)
qed

lemma toDouble_le_512: assumes "0 < x" "x < 512" shows "toDouble x \<le> 512"
proof -
  define q where "q = max (binade x - 52) (- 1074)"
  have q: "q \<le> - 44" using binade_le_8 [OF assms] by (simp add: q_def)
  have "x / 2 powi q \<le> 512 / 2 powi q"
    using assms by (simp add: divide_right_mono)
  also have "512 / (2::real) powi q = 2 powi (9 - q)"
    by (simp add: power_int_diff)
  also have "\<dots> = of_int (2 ^ nat (9 - q))"
    using q by (simp add: power_int_def)
  finally have "roundHalfEven (x / 2 powi q) \<le> 2 ^ nat (9 - q)"
    by (rule roundHalfEven_le_int)
  then have "of_int (roundHalfEven (x / 2 powi q)) * 2 powi q \<le> (of_int (2 ^ nat (9 - q)) :: real) * 2 powi q"
    by (simp add: mult_right_mono)
  also have "(of_int (2 ^ nat (9 - q)) :: real) = 2 powi (9 - q)"
    using q by (simp add: power_int_def)
  also have "2 powi (9 - q) * (2::real) powi q = 512"
    by (simp add: power_int_diff)
  finally show ?thesis
    using assms by (simp add: toDouble_def Let_def q_def)
qed

lemma binade_9: assumes "512 \<le> x" "x < 1000" shows "binade x = 9"
proof -
  have a: "512 \<le> \<lfloor>x\<rfloor>" "\<lfloor>x\<rfloor> < 1024" using assms by (simp_all add: le_floor_iff floor_less_iff)
  then have "bitlen \<lfloor>x\<rfloor> \<le> 10" using bitlen_le_iff_power [of "\<lfloor>x\<rfloor>" 10] by simp
  moreover have "\<not> bitlen \<lfloor>x\<rfloor> \<le> 9" using a bitlen_le_iff_power [of "\<lfloor>x\<rfloor>" 9] by simp
  ultimately have "bitlen \<lfloor>x\<rfloor> = 10" by simp
  with assms show ?thesis by (simp add: binade_def)
qed

lemma toDouble_below_1000:
  assumes "512 \<le> x" "x \<le> 1000 - 1000 / 2 ^ 53" shows "toDouble x < 1000"
proof -
  have b: "binade x = 9" using assms by (intro binade_9) simp_all
  have "x * 2 ^ 43 \<le> (1000 - 1000 / 2 ^ 53) * 2 ^ 43" using assms by simp
  then have "x * 2 ^ 43 + 1 / 2 < 1000 * 2 ^ 43" by simp
  with roundHalfEven_le [of "x * 2 ^ 43"]
  have "(of_int (roundHalfEven (x * 2 ^ 43)) :: real) < 1000 * 2 ^ 43" by linarith
  then have "(of_int (roundHalfEven (x * 2 ^ 43)) :: real) / 2 ^ 43 < 1000" by simp
  then show ?thesis
    using assms by (simp add: toDouble_def Let_def b power_int_minus field_simps)
qed

lemma randomOffset_range:
  assumes "0 \<le> Math_random env" "Math_random env \<le> 1 - 1 / 2 ^ 53"
  shows "0 \<le> randomOffset env \<and> randomOffset env \<le> 999"
proof -
  let ?x = "Math_random env * 1000"
  have x: "0 \<le> ?x" "?x \<le> 1000 - 1000 / 2 ^ 53" using assms by simp_all
  have "toDouble ?x < 1000"
  proof (cases "?x < 512")
    case True
    then show ?thesis
      using toDouble_le_512 [of ?x] x by (cases "?x = 0") (simp_all add: toDouble_def)
  next
    case False
    then show ?thesis using toDouble_below_1000 [of ?x] x by simp
  qed
  moreover have "0 \<le> toDouble ?x" using x by (intro toDouble_nonneg)
  ultimately show ?thesis
    by (simp add: randomOffset_def double_times_def floor_less_iff)
qed

lemma scaled_back:
  "of_int (roundHalfEven (real_of_int m / 2 powi (- int k))) * 2 powi (- int k) = real_of_int m"
proof -
  have "real_of_int m / 2 powi (- int k) = of_int (m * 2 ^ k)"
    by (simp add: power_int_minus divide_inverse)
  then have "roundHalfEven (real_of_int m / 2 powi (- int k)) = m * 2 ^ k"
    by (simp only: roundHalfEven_of_int)
  then show ?thesis
    by (simp add: power_int_minus)
qed

lemma toDouble_of_int:
  assumes "\<bar>n\<bar> < 2 ^ 53" shows "toDouble (of_int n) = of_int n"
proof (cases "n = 0")
  case True
  then show ?thesis by (simp add: toDouble_def)
next
  case False
  define m where "m = \<bar>n\<bar>"
  have m: "0 < m" "m < 2 ^ 53" using False assms by (simp_all add: m_def)
  have "bitlen m \<noteq> 0" using m bitlen_eq_zero_iff [of m] by simp
  then have b1: "1 \<le> bitlen m" using bitlen_nonneg [of m] by linarith
  have b2: "bitlen m \<le> 53" using m bitlen_le_iff_power [of m 53] by simp
  have bin: "binade (of_int m) = bitlen m - 1" using m by (simp add: binade_def)
  define k where "k = nat (53 - bitlen m)"
  have q: "max (binade (of_int m) - 52) (- 1074) = - int k"
    using b1 b2 by (simp add: bin k_def)
  have ab: "\<bar>real_of_int n\<bar> = of_int m" by (simp add: m_def)
  have nz: "real_of_int n \<noteq> 0" using False by simp
  have "toDouble (of_int n) = sgn (real_of_int n) * real_of_int m"
    unfolding toDouble_def ab Let_def q mult.assoc scaled_back using nz by simp
  also have "\<dots> = of_int n" by (simp add: m_def sgn_if)
  finally show ?thesis .
qed

lemma freshId_exact:
  assumes "0 \<le> Date_now env" "Date_now env \<le> 8640000000000000"
    and "0 \<le> Math_random env" "Math_random env \<le> 1 - 1 / 2 ^ 53"
  shows "freshId env = Date_now env + randomOffset env"
proof -
  have r: "0 \<le> randomOffset env" "randomOffset env \<le> 999"
    using randomOffset_range [OF assms(3,4)] by simp_all
  have "\<bar>Date_now env + randomOffset env\<bar> < 2 ^ 53" using assms r by simp
  then have "toDouble (of_int (Date_now env + randomOffset env)) = of_int (Date_now env + randomOffset env)"
    by (rule toDouble_of_int)
  then show ?thesis
    by (simp add: freshId_def double_plus_def flip: of_int_add)
qed

subsection \<open>The concrete states, evaluated\<close>

lemmas env_simps = env_ok_def env_store_down_def env_rate_limited_def env_images_fail_def
  env_later_def env_next_def env_rounding_def env_next_store_down_def

lemmas segment_defs = initDB_settled_def projects_settled_def mount_catch_def
  handleGenerateVideo_start_def script_settled_def title_settled_def scenes_settled_def
  images_settled_def voiceover_settled_def decode_settled_def generate_catch_def
  handleSaveProject_start_def base64_settled_def savePut_settled_def save_catch_def
  handleDeleteProject_start_def delete_settled_def handleImportProject_start_def
  file_settled_def importPut_settled_def import_catch_def

lemma js_nonempty [simp]: "js (c # cs) \<noteq> []"
  by (simp add: js_def)

lemma toDouble_numeral [simp]: "toDouble 500 = 500" "toDouble 100 = 100" "toDouble 250 = 250"
  using toDouble_of_int [of 500] toDouble_of_int [of 100] toDouble_of_int [of 250] by simp_all

lemma randomOffset_envs:
  "randomOffset env_ok = 500" "randomOffset env_later = 100" "randomOffset env_next = 250"
  "randomOffset env_store_down = 500" "randomOffset env_next_store_down = 250"
  by (simp_all add: randomOffset_def double_times_def env_simps)

lemma freshId_envs:
  "freshId env_ok = 1700000000500" "freshId env_later = 1700000000500"
  "freshId env_next = 1700000003250" "freshId env_store_down = 1700000000500"
  "freshId env_next_store_down = 1700000003250"
  using toDouble_of_int [of 1700000000500] toDouble_of_int [of 1700000003250]
  by (simp_all add: freshId_def double_plus_def randomOffset_envs) (simp_all add: env_simps)

lemma Promise_all_two:
  "Promise_all order [Inr a, Inr b] = Inr [a, b]"
proof -
  have "firstRejection os [Inr a, Inr b] = None" for os
    by (induction os) (auto simp: nth_Cons split: nat.splits)
  then show ?thesis by (simp add: Promise_all_def)
qed

lemma previewWorld_eval:
  "previewWorld =
     \<lparr>appState = Preview, loadingMessage = js ''Preparing your video...'', errorMessage = [],
      App.scenes = JArr
        [sceneObject \<lparr>sceneDescription = js ''kitchen'', searchQuery = js ''robot kitchen'',
           duration = 5\<rparr> (js ''data:image/png;base64,'' @ js ''kitchen''),
         sceneObject \<lparr>sceneDescription = js ''table'', searchQuery = js ''dinner table'',
           duration = 7\<rparr> (js ''data:image/png;base64,'' @ js ''table'')],
      audioUrl = js ''blob:wave'', currentTopic = JStr demoTopic,
      App.title = JStr (js ''Robot chef''), App.hashtags = JStr (js ''#robot #cooking''),
      projects = [], dbReady = True, dbCalls = [], downloads = []\<rparr>"
  by (simp add: previewWorld_def handleGenerateVideo_def initialize_def segment_defs world0_def
      env_ok_def imageRequests_def Promise_all_two finalScenes_def upt_rec numeral_2_eq_2)

lemma demoProject_eval:
  "demoProject =
     \<lparr>SavedProject.id_p = 1700000000500,
      SavedProject.topic = JStr demoTopic,
      SavedProject.scenes = App.scenes previewWorld,
      SavedProject.audioData = JStr (js ''UklGRg''),
      SavedProject.title = JStr (js ''Robot chef''),
      SavedProject.hashtags = JStr (js ''#robot #cooking'')\<rparr>"
  by (simp add: demoProject_def newSavedProject_def freshId_envs previewWorld_eval)

subsection \<open>The handlers that run alone, written out\<close>

lemma handleSaveProject_alone:
  "handleSaveProject env w =
     (if lengthFalsy (App.scenes w) \<or> audioUrl w = [] \<or> \<not> truthy_val (currentTopic w) \<or>
         \<not> dbReady w
      then w
      else case blobUrlToBase64 env (audioUrl w) of
        Inl e \<Rightarrow>
          w\<lparr>errorMessage := js ''Could not save the project. Please try again.'',
            appState := Error\<rparr>
      | Inr encoded \<Rightarrow>
          (case saveProjectToDB env (newSavedProject env w encoded) of
             Inl e \<Rightarrow>
               w\<lparr>dbCalls := dbCalls w @ [PutProject (newSavedProject env w encoded)],
                 errorMessage := js ''Could not save the project. Please try again.'',
                 appState := Error\<rparr>
           | Inr u \<Rightarrow>
               w\<lparr>dbCalls := dbCalls w @ [PutProject (newSavedProject env w encoded)],
                 projects := projects w @ [newSavedProject env w encoded]\<rparr>))"
  by (cases "App.scenes w")
    (simp_all add: handleSaveProject_def handleSaveProject_start_def base64_settled_def
      savePut_settled_def save_catch_def truthy_def Let_def split: sum.splits)

lemma handleDeleteProject_alone:
  "handleDeleteProject env ident w =
     (if \<not> dbReady w then w
      else case deleteProjectFromDB env ident of
        Inl e \<Rightarrow>
          w\<lparr>dbCalls := dbCalls w @ [DeleteProject ident],
            errorMessage := js ''Could not delete the project. Please try again.'',
            appState := Error\<rparr>
      | Inr u \<Rightarrow>
          w\<lparr>dbCalls := dbCalls w @ [DeleteProject ident],
            projects := filter (\<lambda>p. SavedProject.id_p p \<noteq> ident) (projects w)\<rparr>)"
  by (simp add: handleDeleteProject_def handleDeleteProject_start_def delete_settled_def
      split: sum.splits)

lemma handleImportProject_alone:
  "handleImportProject env (Some (FileText content)) w =
     (case JSON_parse content of
        Inl e \<Rightarrow> w\<lparr>errorMessage := js ''Could not import project: '' @ message e, appState := Error\<rparr>
      | Inr importedProject \<Rightarrow>
          (case importedNewProject env importedProject of
             Inl e \<Rightarrow>
               w\<lparr>errorMessage := js ''Could not import project: '' @ message e, appState := Error\<rparr>
           | Inr newProject \<Rightarrow>
               (case saveProjectToDB env newProject of
                  Inl e \<Rightarrow>
                    w\<lparr>dbCalls := dbCalls w @ [PutProject newProject],
                      errorMessage := js ''Could not import project: '' @ message e,
                      appState := Error\<rparr>
                | Inr u \<Rightarrow>
                    w\<lparr>dbCalls := dbCalls w @ [PutProject newProject],
                      projects := projects w @ [newProject]\<rparr>)))"
  by (simp add: handleImportProject_def handleImportProject_start_def file_settled_def
      importPut_settled_def import_catch_def split: sum.splits)

lemma save_previewWorld:
  "handleSaveProject env_ok previewWorld =
     previewWorld\<lparr>dbCalls := [PutProject demoProject], projects := [demoProject]\<rparr>"
  unfolding handleSaveProject_alone demoProject_def
  by (simp add: previewWorld_eval env_ok_def demoTopic_def)

lemma libraryWorld_eval:
  "libraryWorld =
     world0\<lparr>dbReady := True, loadingMessage := js ''Preparing your video...'',
       dbCalls := [PutProject demoProject], projects := [demoProject]\<rparr>"
  unfolding libraryWorld_def save_previewWorld
  by (simp add: handleRestart_def previewWorld_eval world0_def)

lemma errorWorld_eval:
  "errorWorld =
     previewWorld\<lparr>dbCalls := [PutProject demoProject],
       errorMessage := js ''Could not save the project. Please try again.'', appState := Error\<rparr>"
proof -
  have "newSavedProject env_store_down previewWorld (js ''UklGRg'') = demoProject"
    by (simp add: demoProject_def newSavedProject_def freshId_envs)
  then show ?thesis
    unfolding errorWorld_def handleSaveProject_alone
    by (simp add: previewWorld_eval env_store_down_def env_ok_def demoTopic_def)
qed

lemma env_calls:
  "blobUrlToBase64 env_ok url = Inr (js ''UklGRg'')"
  "blobUrlToBase64 env_later url = Inr (js ''UklGRg'')"
  "blobUrlToBase64 env_next url = Inr (js ''UklGRg'')"
  "blobUrlToBase64 env_store_down url = Inr (js ''UklGRg'')"
  "saveProjectToDB env_ok p = Inr ()"
  "saveProjectToDB env_later p = Inr ()"
  "saveProjectToDB env_next p = Inr ()"
  "saveProjectToDB env_store_down p = Inl (JsError (js ''QuotaExceededError''))"
  "saveProjectToDB env_next_store_down p = Inl (JsError (js ''QuotaExceededError''))"
  "deleteProjectFromDB env_ok i = Inr ()"
  "deleteProjectFromDB env_store_down i = Inl (JsError (js ''TransactionInactiveError''))"
  "base64ToBlobUrl env_ok v = Inr (js ''blob:loaded'')"
  "download env_ok name content = Inr ()"
  "typeErrorOfNull env_next = JsError (js ''Cannot read properties of null (reading 'topic')'')"
  by (simp_all add: env_simps)

subsection \<open>Save\<close>

text \<open>
  C9: when the scene sequence is empty, or the audio handle is absent, or the topic is
  empty, or the store is not ready, save returns the state it got: no
  operation is issued to the store, the list of projects is the same, and no error is
  shown. The scenes are any value with a length (of \<^verbatim>\<open>null\<close> the read of the length
  throws), the topic any value.
\<close>

theorem save_without_precondition_is_noop:
  "App.scenes w \<noteq> JNull \<Longrightarrow>
   lengthFalsy (App.scenes w) \<or> audioUrl w = [] \<or> \<not> truthy_val (currentTopic w) \<or> \<not> dbReady w \<Longrightarrow>
   handleSaveProject env w = w"
  by (auto simp: handleSaveProject_alone)

text \<open>
  The preview after a generation, with one precondition taken away at a time; with all
  four in place the same save does issue a store operation.
\<close>

theorem save_without_precondition_witness:
  "handleSaveProject env_ok (previewWorld\<lparr>App.scenes := JArr []\<rparr>) =
     previewWorld\<lparr>App.scenes := JArr []\<rparr> \<and>
   handleSaveProject env_ok (previewWorld\<lparr>audioUrl := []\<rparr>) = previewWorld\<lparr>audioUrl := []\<rparr> \<and>
   handleSaveProject env_ok (previewWorld\<lparr>currentTopic := JStr []\<rparr>) =
     previewWorld\<lparr>currentTopic := JStr []\<rparr> \<and>
   handleSaveProject env_ok (previewWorld\<lparr>dbReady := False\<rparr>) = previewWorld\<lparr>dbReady := False\<rparr> \<and>
   dbCalls (handleSaveProject env_ok previewWorld) \<noteq> dbCalls previewWorld"
  using save_without_precondition_is_noop [of "previewWorld\<lparr>App.scenes := JArr []\<rparr>" env_ok]
    save_without_precondition_is_noop [of "previewWorld\<lparr>audioUrl := []\<rparr>" env_ok]
    save_without_precondition_is_noop [of "previewWorld\<lparr>currentTopic := JStr []\<rparr>" env_ok]
    save_without_precondition_is_noop [of "previewWorld\<lparr>dbReady := False\<rparr>" env_ok]
  unfolding save_previewWorld
  by (simp add: previewWorld_eval)

subsection \<open>Delete\<close>

text \<open>
  C8: delete is durable first. When the store is not ready nothing happens at all. When
  it is ready the deletion is issued to the store; if that fails the list of projects is
  as before and the error state is shown; if it succeeds the entries with that id leave
  the list. So the list changes only when the store is ready and its deletion has
  succeeded.
\<close>

theorem delete_is_durable_first:
  "(\<not> dbReady w \<longrightarrow> handleDeleteProject env ident w = w) \<and>
   (dbReady w \<and> deleteProjectFromDB env ident = Inl e \<longrightarrow>
      projects (handleDeleteProject env ident w) = projects w \<and>
      dbCalls (handleDeleteProject env ident w) = dbCalls w @ [DeleteProject ident] \<and>
      appState (handleDeleteProject env ident w) = Error) \<and>
   (dbReady w \<and> deleteProjectFromDB env ident = Inr u \<longrightarrow>
      handleDeleteProject env ident w =
        w\<lparr>dbCalls := dbCalls w @ [DeleteProject ident],
          projects := filter (\<lambda>p. SavedProject.id_p p \<noteq> ident) (projects w)\<rparr>) \<and>
   (projects (handleDeleteProject env ident w) \<noteq> projects w \<longrightarrow>
      dbReady w \<and> deleteProjectFromDB env ident = Inr ())"
  by (auto simp: handleDeleteProject_alone split: sum.splits)

text \<open>
  Deleting the one saved project: with the store not ready, with a store that rejects
  the deletion, and with a store that performs it.
\<close>

theorem delete_is_durable_first_witness:
  "handleDeleteProject env_ok 1700000000500 (libraryWorld\<lparr>dbReady := False\<rparr>) =
     libraryWorld\<lparr>dbReady := False\<rparr> \<and>
   projects (handleDeleteProject env_store_down 1700000000500 libraryWorld) = [demoProject] \<and>
   appState (handleDeleteProject env_store_down 1700000000500 libraryWorld) = Error \<and>
   projects (handleDeleteProject env_ok 1700000000500 libraryWorld) = [] \<and>
   dbCalls (handleDeleteProject env_ok 1700000000500 libraryWorld) =
     [PutProject demoProject, DeleteProject 1700000000500]"
  using delete_is_durable_first
      [where w = "libraryWorld\<lparr>dbReady := False\<rparr>" and env = env_ok and ident = 1700000000500]
    delete_is_durable_first
      [where w = libraryWorld and env = env_store_down and ident = 1700000000500
         and e = "JsError (js ''TransactionInactiveError'')"]
    delete_is_durable_first
      [where w = libraryWorld and env = env_ok and ident = 1700000000500 and u = "()"]
  by (simp add: libraryWorld_eval world0_def env_simps demoProject_eval)

subsection \<open>The ids of saved projects\<close>

lemma floor_eqI: "of_int n \<le> x \<Longrightarrow> x < of_int n + 1 \<Longrightarrow> \<lfloor>x :: real\<rfloor> = n"
  by (simp add: floor_unique)

lemma randomOffset_rounding: "randomOffset env_rounding = 119"
proof -
  define x :: real where "x = 535928355657089 / 2 ^ 52 * 1000"
  have fl: "\<lfloor>x\<rfloor> = 118" by (rule floor_eqI) (simp_all add: x_def)
  have "bitlen 118 \<le> 7" using bitlen_le_iff_power [of 118 7] by simp
  moreover have "\<not> bitlen 118 \<le> 6" using bitlen_le_iff_power [of 118 6] by simp
  ultimately have "bitlen 118 = 7" by simp
  then have b: "binade x = 6" using fl by (simp add: binade_def) (simp add: x_def)
  have pos: "\<bar>x\<bar> = x" "x \<noteq> 0" "sgn x = 1" by (simp_all add: x_def)
  have sc: "x / 2 powi (- 46) = 8373880557142015 + 5 / 8"
    by (simp add: x_def power_int_minus)
  have r: "roundHalfEven (8373880557142015 + 5 / 8) = 8373880557142016"
  proof -
    have "\<lfloor>8373880557142015 + 5 / 8 :: real\<rfloor> = 8373880557142015"
      by (rule floor_eqI) simp_all
    then show ?thesis by (simp add: roundHalfEven_def)
  qed
  have q: "max (6 - 52) (- 1074) = (- 46 :: int)" by simp
  have "toDouble x = 119"
    unfolding toDouble_def pos(1,3) Let_def b q sc r using pos(2) by (simp add: power_int_minus)
  then show ?thesis
    by (simp add: randomOffset_def double_times_def env_rounding_def env_ok_def x_def)
qed

lemma numbersInRange_envs:
  "numbersInRange env_ok" "numbersInRange env_later" "numbersInRange env_next"
  "numbersInRange env_rounding"
  by (simp_all add: numbersInRange_def env_simps)

text \<open>
  C1: the record of a save carries the id \<^verbatim>\<open>Date.now() + Math.floor(Math.random() * 1000)\<close>,
  read when the encoding of the audio has settled: the clock plus a whole offset from 0 to
  999, with no rounding. So the records of two saves have distinct ids exactly when these
  two sums differ, and for two saves in the same millisecond exactly when their offsets
  differ. The record is the one that save puts to the store and then appends.
\<close>

theorem saved_ids_are_clock_plus_offset:
  assumes "numbersInRange env1" and "numbersInRange env2"
  shows "SavedProject.id_p (newSavedProject env1 c1 audio1) = Date_now env1 + randomOffset env1 \<and>
    0 \<le> randomOffset env1 \<and> randomOffset env1 \<le> 999 \<and>
    (SavedProject.id_p (newSavedProject env1 c1 audio1) \<noteq>
       SavedProject.id_p (newSavedProject env2 c2 audio2) \<longleftrightarrow>
     Date_now env1 + randomOffset env1 \<noteq> Date_now env2 + randomOffset env2) \<and>
    (Date_now env1 = Date_now env2 \<longrightarrow>
       (SavedProject.id_p (newSavedProject env1 c1 audio1) \<noteq>
          SavedProject.id_p (newSavedProject env2 c2 audio2) \<longleftrightarrow>
        randomOffset env1 \<noteq> randomOffset env2)) \<and>
    (blobUrlToBase64 env1 (audioUrl c1) = Inr audio1 \<longrightarrow>
       base64_settled env1 c1 w =
         (w\<lparr>dbCalls := dbCalls w @ [PutProject (newSavedProject env1 c1 audio1)]\<rparr>,
          Some (AwaitSavePut (projects c1) (newSavedProject env1 c1 audio1)))) \<and>
    (saveProjectToDB env2 newProject = Inr u \<longrightarrow>
       savePut_settled env2 captured newProject w = (w\<lparr>projects := captured @ [newProject]\<rparr>, None))"
proof -
  have i1: "freshId env1 = Date_now env1 + randomOffset env1"
    using assms(1) by (intro freshId_exact) (simp_all add: numbersInRange_def)
  have i2: "freshId env2 = Date_now env2 + randomOffset env2"
    using assms(2) by (intro freshId_exact) (simp_all add: numbersInRange_def)
  have r: "0 \<le> randomOffset env1 \<and> randomOffset env1 \<le> 999"
    using assms(1) by (intro randomOffset_range) (simp_all add: numbersInRange_def)
  show ?thesis
    using r
    by (simp add: newSavedProject_def i1 i2 base64_settled_def savePut_settled_def Let_def)
qed

text \<open>
  Two saves three seconds apart get distinct ids; and a draw whose product with 1000 is
  rounded up to 119 gives the offset 119.
\<close>

theorem saved_ids_witness:
  "numbersInRange env_ok \<and> numbersInRange env_next \<and> numbersInRange env_rounding \<and>
   SavedProject.id_p (newSavedProject env_ok previewWorld (js ''UklGRg'')) = 1700000000500 \<and>
   SavedProject.id_p (newSavedProject env_next previewWorld (js ''UklGRg'')) = 1700000003250 \<and>
   SavedProject.id_p (newSavedProject env_rounding previewWorld (js ''UklGRg'')) = 1700000000119"
  using saved_ids_are_clock_plus_offset
      [of env_ok env_next previewWorld "js ''UklGRg''" previewWorld "js ''UklGRg''"]
    saved_ids_are_clock_plus_offset
      [of env_next env_rounding previewWorld "js ''UklGRg''" previewWorld "js ''UklGRg''"]
    saved_ids_are_clock_plus_offset
      [of env_rounding env_ok previewWorld "js ''UklGRg''" previewWorld "js ''UklGRg''"]
  by (simp add: numbersInRange_envs randomOffset_envs randomOffset_rounding)
    (simp add: env_simps)

lemma save_twice:
  "projects (handleSaveProject env_ok (handleSaveProject env_ok previewWorld)) =
     [demoProject, demoProject]"
  "projects (handleSaveProject env_later (handleSaveProject env_ok previewWorld)) =
     [demoProject, demoProject]"
  unfolding save_previewWorld handleSaveProject_alone
  by (simp_all add: previewWorld_eval newSavedProject_def env_calls freshId_envs demoProject_eval
      demoTopic_def)

text \<open>
  Against C1 as stated: the preview saved twice, one save after the other has ended. With
  the same clock and the same draw, and also 400 milliseconds later with a draw that is
  400 smaller, the list holds two records with the id 1700000000500.
\<close>

theorem saved_ids_can_repeat:
  "map SavedProject.id_p
     (projects (handleSaveProject env_ok (handleSaveProject env_ok previewWorld))) =
     [1700000000500, 1700000000500] \<and>
   map SavedProject.id_p
     (projects (handleSaveProject env_later (handleSaveProject env_ok previewWorld))) =
     [1700000000500, 1700000000500] \<and>
   numbersInRange env_ok \<and> numbersInRange env_later \<and>
   Date_now env_later = Date_now env_ok + 400"
  by (simp add: save_twice numbersInRange_envs demoProject_eval) (simp add: env_simps)

subsection \<open>Handlers that overlap\<close>

lemma play_append:
  "play (es @ fs) s = (case play es s of None \<Rightarrow> None | Some s' \<Rightarrow> play fs s')"
  by (induction es arbitrary: s) simp_all

lemma launch_to_preview: "play toPreview sys0 = Some (previewWorld, [])"
  unfolding previewWorld_eval
  by (simp add: toPreview_def sys0_def segment_defs world0_def env_ok_def imageRequests_def
      Promise_all_two finalScenes_def upt_rec numeral_2_eq_2)

lemma secondProject_eq:
  "newSavedProject env_next previewWorld (js ''UklGRg'') = secondProject"
  by (simp add: secondProject_def demoProject_def newSavedProject_def freshId_envs)

lemma overlapping_saves:
  "play [Save, Save, Resume 0 env_ok, Resume 1 env_next, Resume 0 env_ok, Resume 0 env_next]
     (previewWorld, []) =
   Some (previewWorld\<lparr>dbCalls := [PutProject demoProject, PutProject secondProject],
           projects := [secondProject]\<rparr>, [])"
proof -
  have guard: "handleSaveProject_start previewWorld = (previewWorld, Some (AwaitBase64 previewWorld))"
    by (simp add: handleSaveProject_start_def truthy_def previewWorld_eval demoTopic_def)
  have st: "appState previewWorld = Preview" "audioUrl previewWorld = js ''blob:wave''"
    "projects previewWorld = []" "dbCalls previewWorld = []"
    by (simp_all add: previewWorld_eval)
  show ?thesis
    by (simp add: guard st base64_settled_def savePut_settled_def env_calls secondProject_eq
        demoProject_def [symmetric] Let_def)
qed

text \<open>
  C10, for save: the preview is saved twice, the second save called before the first has
  ended. Both encodings settle, both records are put to the store and both puts succeed.
  Each save then sets the list to the list of the render it was called in plus its own
  record (line 121), so the list ends with the second record alone: the first record is
  in the store and not in the list.
\<close>

theorem overlapping_saves_drop_a_record:
  "play (toPreview @
         [Save, Save, Resume 0 env_ok, Resume 1 env_next, Resume 0 env_ok, Resume 0 env_next])
     sys0 =
   Some (previewWorld\<lparr>dbCalls := [PutProject demoProject, PutProject secondProject],
           projects := [secondProject]\<rparr>, [])"
  by (simp only: play_append launch_to_preview option.case overlapping_saves)

subsection \<open>What a preview shows\<close>

lemma noScenesProject_eq:
  "importedNewProject env_next
     (JObj [(js ''id'', JNum 7), (js ''topic'', JStr (js ''empty'')),
            (js ''scenes'', JArr []), (js ''audioData'', JStr (js ''UklGRg''))]) =
   Inr noScenesProject"
  by (simp add: importedNewProject_def noScenesProject_def missing_def or_empty_def freshId_envs
      js_def)

text \<open>
  C3: a file with a topic, audio data and an empty list of scenes. The import accepts it
  (line 192 asks only whether \<^verbatim>\<open>scenes\<close> is there), the store takes the record and the list
  shows it; loading it puts up the preview with no scene. A save of the same state is
  refused by the guard of line 108.
\<close>

theorem preview_with_no_scenes:
  "play [Resume 0 env_ok, Resume 0 env_ok, ChooseFile (Some (FileText noScenesFile)),
         Resume 0 env_next, Resume 0 env_next, Load env_ok noScenesProject] sys0 =
   Some (world0\<lparr>dbReady := True, dbCalls := [PutProject noScenesProject],
           projects := [noScenesProject], App.scenes := JArr [], audioUrl := js ''blob:loaded'',
           currentTopic := JStr (js ''empty''), appState := Preview\<rparr>, [])"
proof -
  have mount: "play [Resume 0 env_ok, Resume 0 env_ok] sys0 = Some (world0\<lparr>dbReady := True\<rparr>, [])"
    by (simp add: sys0_def initDB_settled_def projects_settled_def env_ok_def world0_def)
  have idle: "appState (world0\<lparr>dbReady := True\<rparr>) = Idle" by (simp add: world0_def)
  have imp: "play [ChooseFile (Some (FileText noScenesFile)), Resume 0 env_next, Resume 0 env_next]
      (world0\<lparr>dbReady := True\<rparr>, []) =
    Some (world0\<lparr>dbReady := True, dbCalls := [PutProject noScenesProject],
            projects := [noScenesProject]\<rparr>, [])"
    by (simp add: idle handleImportProject_start_def file_settled_def importPut_settled_def
        noScenesFile_def JSON_parse_def noScenesProject_eq env_calls)
      (simp add: world0_def)
  have load: "play [Load env_ok noScenesProject]
      (world0\<lparr>dbReady := True, dbCalls := [PutProject noScenesProject],
         projects := [noScenesProject]\<rparr>, []) =
    Some (world0\<lparr>dbReady := True, dbCalls := [PutProject noScenesProject],
           projects := [noScenesProject], App.scenes := JArr [], audioUrl := js ''blob:loaded'',
           currentTopic := JStr (js ''empty''), appState := Preview\<rparr>, [])"
    by (simp add: handleLoadProject_def env_calls val_or_def)
      (simp add: world0_def noScenesProject_def)
  show ?thesis
    using play_append [of "[Resume 0 env_ok, Resume 0 env_ok]"
        "[ChooseFile (Some (FileText noScenesFile)), Resume 0 env_next, Resume 0 env_next,
          Load env_ok noScenesProject]" sys0]
      play_append [of "[ChooseFile (Some (FileText noScenesFile)), Resume 0 env_next,
          Resume 0 env_next]" "[Load env_ok noScenesProject]" "(world0\<lparr>dbReady := True\<rparr>, [])"]
    by (simp only: append_Cons append_Nil mount imp load option.case)
qed

subsection \<open>Import\<close>

lemma validationMessage_eq:
  "js ''Could not import project: '' @ message validationError = validationMessage"
  by (simp add: validationError_def validationMessage_def)


text \<open>
  C5: the import, for everything a chosen file can hold. No file chosen: nothing happens.
  A file that cannot be read, that is not text, or whose text is not JSON: the error state,
  with the message of that failure. The text \<^verbatim>\<open>null\<close>: the error state, with the message of
  the engine's type error. Any other value in which \<^verbatim>\<open>topic\<close>, \<^verbatim>\<open>scenes\<close> or \<^verbatim>\<open>audioData\<close> is
  absent or falsy (\<^verbatim>\<open>null\<close>, \<^verbatim>\<open>false\<close>, 0, the empty string): the error state, with the
  validation message. In all these cases no operation is issued to the store and the list
  of projects is as before. When all three are there and truthy the record is built with
  them, title and hashtags taken from the file or else the empty string, and put to the
  store; the list gets the record at its end if the store accepts it, and if the store
  rejects it the list is as before and the error state shows the message of the store.
\<close>

theorem import_validates_then_stores:
  "handleImportProject env None w = w \<and>
   handleImportProject env (Some ReadError) w =
     w\<lparr>errorMessage := js ''Failed to read the project file.'', appState := Error\<rparr> \<and>
   handleImportProject env (Some NotAString) w =
     w\<lparr>errorMessage := js ''Could not import project: '' @ js ''File could not be read.'',
       appState := Error\<rparr> \<and>
   handleImportProject env (Some (FileText (NotJson e))) w =
     w\<lparr>errorMessage := js ''Could not import project: '' @ message e, appState := Error\<rparr> \<and>
   handleImportProject env (Some (FileText (JsonText JNull))) w =
     w\<lparr>errorMessage := js ''Could not import project: '' @ message (typeErrorOfNull env),
       appState := Error\<rparr> \<and>
   (v \<noteq> JNull \<and>
    (missing (ownField v (js ''topic'')) \<or> missing (ownField v (js ''scenes'')) \<or>
     missing (ownField v (js ''audioData''))) \<longrightarrow>
      handleImportProject env (Some (FileText (JsonText v))) w =
        w\<lparr>errorMessage := validationMessage, appState := Error\<rparr>) \<and>
   (ownField v (js ''topic'') = Some t \<and> truthy_val t \<and>
    ownField v (js ''scenes'') = Some sc \<and> truthy_val sc \<and>
    ownField v (js ''audioData'') = Some a \<and> truthy_val a \<and>
    p = \<lparr>SavedProject.id_p = freshId env, SavedProject.topic = t, SavedProject.scenes = sc,
         SavedProject.audioData = a,
         SavedProject.title = or_empty (ownField v (js ''title'')),
         SavedProject.hashtags = or_empty (ownField v (js ''hashtags''))\<rparr> \<longrightarrow>
      (saveProjectToDB env p = Inr u \<longrightarrow>
         handleImportProject env (Some (FileText (JsonText v))) w =
           w\<lparr>dbCalls := dbCalls w @ [PutProject p], projects := projects w @ [p]\<rparr>) \<and>
      (saveProjectToDB env p = Inl e' \<longrightarrow>
         handleImportProject env (Some (FileText (JsonText v))) w =
           w\<lparr>dbCalls := dbCalls w @ [PutProject p],
             errorMessage := js ''Could not import project: '' @ message e',
             appState := Error\<rparr>)) \<and>
   or_empty None = JStr [] \<and> or_empty (Some (JStr [])) = JStr []"
proof -
  have none: "handleImportProject env None w = w"
    by (simp add: handleImportProject_def handleImportProject_start_def)
  have unread: "handleImportProject env (Some ReadError) w =
      w\<lparr>errorMessage := js ''Failed to read the project file.'', appState := Error\<rparr>"
    "handleImportProject env (Some NotAString) w =
      w\<lparr>errorMessage := js ''Could not import project: '' @ js ''File could not be read.'',
        appState := Error\<rparr>"
    by (simp_all add: handleImportProject_def handleImportProject_start_def file_settled_def
        import_catch_def)
  have notjson: "handleImportProject env (Some (FileText (NotJson e))) w =
      w\<lparr>errorMessage := js ''Could not import project: '' @ message e, appState := Error\<rparr>"
    by (simp add: handleImportProject_alone JSON_parse_def)
  have null: "handleImportProject env (Some (FileText (JsonText JNull))) w =
      w\<lparr>errorMessage := js ''Could not import project: '' @ message (typeErrorOfNull env),
        appState := Error\<rparr>"
    by (simp add: handleImportProject_alone JSON_parse_def importedNewProject_def)
  have refused: "handleImportProject env (Some (FileText (JsonText v))) w =
      w\<lparr>errorMessage := validationMessage, appState := Error\<rparr>"
    if "v \<noteq> JNull" "missing (ownField v (js ''topic'')) \<or> missing (ownField v (js ''scenes'')) \<or>
       missing (ownField v (js ''audioData''))"
  proof -
    have "importedNewProject env v = Inl validationError"
      using that by (simp add: importedNewProject_def)
    then show ?thesis
      by (simp add: handleImportProject_alone JSON_parse_def validationMessage_eq)
  qed
  have accepted: "importedNewProject env v =
      Inr \<lparr>SavedProject.id_p = freshId env, SavedProject.topic = t, SavedProject.scenes = sc,
         SavedProject.audioData = a,
         SavedProject.title = or_empty (ownField v (js ''title'')),
         SavedProject.hashtags = or_empty (ownField v (js ''hashtags''))\<rparr>"
    if "ownField v (js ''topic'') = Some t" "truthy_val t"
      "ownField v (js ''scenes'') = Some sc" "truthy_val sc"
      "ownField v (js ''audioData'') = Some a" "truthy_val a"
  proof -
    have "v \<noteq> JNull" using that(1) by auto
    then show ?thesis using that by (simp add: importedNewProject_def missing_def)
  qed
  show ?thesis
    using none unread notjson null refused accepted
    by (auto simp: handleImportProject_alone JSON_parse_def or_empty_def val_or_def)
qed

lemma file_values:
  "JSON_parse demoFile =
     Inr (JObj [(js ''id'', JNum 1700000000500), (js ''topic'', JStr demoTopic),
       (js ''scenes'', App.scenes previewWorld), (js ''audioData'', JStr (js ''UklGRg'')),
       (js ''title'', JStr (js ''Robot chef'')), (js ''hashtags'', JStr (js ''#robot #cooking''))])"
  "JSON_parse noAudioFile =
     Inr (JObj [(js ''topic'', JStr (js ''no audio'')), (js ''scenes'', App.scenes previewWorld)])"
  "JSON_parse emptyTopicFile =
     Inr (JObj [(js ''topic'', JStr []), (js ''scenes'', App.scenes previewWorld),
       (js ''audioData'', JStr (js ''UklGRg''))])"
  "JSON_parse zeroScenesFile =
     Inr (JObj [(js ''topic'', JStr (js ''zero'')), (js ''scenes'', JNum 0),
       (js ''audioData'', JStr (js ''UklGRg''))])"
  "JSON_parse nullFile = Inr JNull"
  by (simp_all add: JSON_parse_def demoFile_def JSON_stringify_def noAudioFile_def
      emptyTopicFile_def zeroScenesFile_def nullFile_def demoProject_eval)

lemma key_neq [simp]:
  "js ''topic'' \<noteq> js ''scenes''" "js ''topic'' \<noteq> js ''audioData''"
  "js ''topic'' \<noteq> js ''title''" "js ''topic'' \<noteq> js ''hashtags''" "js ''topic'' \<noteq> js ''id''"
  "js ''scenes'' \<noteq> js ''topic''" "js ''scenes'' \<noteq> js ''audioData''"
  "js ''scenes'' \<noteq> js ''title''" "js ''scenes'' \<noteq> js ''hashtags''" "js ''scenes'' \<noteq> js ''id''"
  "js ''audioData'' \<noteq> js ''topic''" "js ''audioData'' \<noteq> js ''scenes''"
  "js ''audioData'' \<noteq> js ''title''" "js ''audioData'' \<noteq> js ''hashtags''"
  "js ''audioData'' \<noteq> js ''id''"
  "js ''title'' \<noteq> js ''topic''" "js ''title'' \<noteq> js ''scenes''"
  "js ''title'' \<noteq> js ''audioData''" "js ''title'' \<noteq> js ''hashtags''" "js ''title'' \<noteq> js ''id''"
  "js ''hashtags'' \<noteq> js ''topic''" "js ''hashtags'' \<noteq> js ''scenes''"
  "js ''hashtags'' \<noteq> js ''audioData''" "js ''hashtags'' \<noteq> js ''title''"
  "js ''hashtags'' \<noteq> js ''id''"
  by (simp_all add: js_def)

lemma libraryWorld_fields:
  "dbCalls libraryWorld = [PutProject demoProject]" "projects libraryWorld = [demoProject]"
  "appState libraryWorld = Idle"
  by (simp_all add: libraryWorld_eval world0_def)

text \<open>
  Four files put before the list of one project: one without audio data, one that holds
  \<^verbatim>\<open>null\<close>, and the export of the saved project, once with a store that accepts the record
  and once with a store that rejects it.
\<close>

theorem import_validates_then_stores_witness:
  "handleImportProject env_next (Some (FileText noAudioFile)) libraryWorld =
     libraryWorld\<lparr>errorMessage := validationMessage, appState := Error\<rparr> \<and>
   handleImportProject env_next (Some (FileText nullFile)) libraryWorld =
     libraryWorld\<lparr>errorMessage := js ''Could not import project: '' @
         js ''Cannot read properties of null (reading 'topic')'',
       appState := Error\<rparr> \<and>
   handleImportProject env_next (Some (FileText demoFile)) libraryWorld =
     libraryWorld\<lparr>dbCalls := [PutProject demoProject, PutProject secondProject],
       projects := [demoProject, secondProject]\<rparr> \<and>
   handleImportProject env_next_store_down (Some (FileText demoFile)) libraryWorld =
     libraryWorld\<lparr>dbCalls := [PutProject demoProject, PutProject secondProject],
       errorMessage := js ''Could not import project: '' @ js ''QuotaExceededError'',
       appState := Error\<rparr>"
proof -
  let ?demo = "JObj [(js ''id'', JNum 1700000000500), (js ''topic'', JStr demoTopic),
       (js ''scenes'', App.scenes previewWorld), (js ''audioData'', JStr (js ''UklGRg'')),
       (js ''title'', JStr (js ''Robot chef'')), (js ''hashtags'', JStr (js ''#robot #cooking''))]"
  have files: "nullFile = JsonText JNull" "demoFile = JsonText ?demo"
    "noAudioFile =
       JsonText (JObj [(js ''topic'', JStr (js ''no audio'')), (js ''scenes'', App.scenes previewWorld)])"
    using file_values by (simp_all add: JSON_parse_def split: file_text.splits)
  have scenes: "truthy_val (App.scenes previewWorld)" by (simp add: previewWorld_eval)
  have second: "secondProject =
      \<lparr>SavedProject.id_p = 1700000003250, SavedProject.topic = JStr demoTopic,
       SavedProject.scenes = App.scenes previewWorld,
       SavedProject.audioData = JStr (js ''UklGRg''),
       SavedProject.title = JStr (js ''Robot chef''),
       SavedProject.hashtags = JStr (js ''#robot #cooking'')\<rparr>"
    by (simp add: secondProject_def demoProject_eval)
  have ids: "freshId env_next_store_down = 1700000003250" "freshId env_next = 1700000003250"
    by (simp_all add: freshId_envs)
  show ?thesis
    using import_validates_then_stores
      [where env = env_next and w = libraryWorld and
        v = "JObj [(js ''topic'', JStr (js ''no audio'')), (js ''scenes'', App.scenes previewWorld)]"]
      import_validates_then_stores
      [where env = env_next and w = libraryWorld and v = ?demo and t = "JStr demoTopic" and
        sc = "App.scenes previewWorld" and a = "JStr (js ''UklGRg'')" and p = secondProject and
        u = "()"]
      import_validates_then_stores
      [where env = env_next_store_down and w = libraryWorld and v = ?demo and
        t = "JStr demoTopic" and sc = "App.scenes previewWorld" and a = "JStr (js ''UklGRg'')" and
        p = secondProject and e' = "JsError (js ''QuotaExceededError'')"]
    unfolding files
    by (simp add: env_calls libraryWorld_fields scenes ids missing_def or_empty_def val_or_def
        demoTopic_def second)
qed

text \<open>
  Against C5 as stated: a file that has all three keys, the topic being the empty string,
  and one whose scenes are the number 0, are refused with the validation message; the
  text \<^verbatim>\<open>null\<close>, which has none of the three, is refused with another message; and a file
  with all three in order fails when the store rejects the record.
\<close>

theorem import_rejects_present_fields:
  "JSON_parse emptyTopicFile =
     Inr (JObj [(js ''topic'', JStr []), (js ''scenes'', App.scenes previewWorld),
       (js ''audioData'', JStr (js ''UklGRg''))]) \<and>
   handleImportProject env_next (Some (FileText emptyTopicFile)) libraryWorld =
     libraryWorld\<lparr>errorMessage := validationMessage, appState := Error\<rparr> \<and>
   JSON_parse zeroScenesFile =
     Inr (JObj [(js ''topic'', JStr (js ''zero'')), (js ''scenes'', JNum 0),
       (js ''audioData'', JStr (js ''UklGRg''))]) \<and>
   handleImportProject env_next (Some (FileText zeroScenesFile)) libraryWorld =
     libraryWorld\<lparr>errorMessage := validationMessage, appState := Error\<rparr> \<and>
   errorMessage (handleImportProject env_next (Some (FileText nullFile)) libraryWorld) \<noteq>
     validationMessage \<and>
   appState (handleImportProject env_next_store_down (Some (FileText demoFile)) libraryWorld) =
     Error \<and>
   projects (handleImportProject env_next_store_down (Some (FileText demoFile)) libraryWorld) =
     projects libraryWorld"
proof -
  have refused:
    "importedNewProject env_next
       (JObj [(js ''topic'', JStr []), (js ''scenes'', App.scenes previewWorld),
         (js ''audioData'', JStr (js ''UklGRg''))]) = Inl validationError"
    "importedNewProject env_next
       (JObj [(js ''topic'', JStr (js ''zero'')), (js ''scenes'', JNum 0),
         (js ''audioData'', JStr (js ''UklGRg''))]) = Inl validationError"
    by (simp_all add: importedNewProject_def missing_def)
  have null: "importedNewProject env_next JNull =
      Inl (JsError (js ''Cannot read properties of null (reading 'topic')''))"
    by (simp add: importedNewProject_def env_calls)
  have differ: "js ''Could not import project: '' @
      js ''Cannot read properties of null (reading 'topic')'' \<noteq> validationMessage"
    by (simp add: validationMessage_def js_def)
  have accepted: "\<exists>p. importedNewProject env_next_store_down
       (JObj [(js ''id'', JNum 1700000000500), (js ''topic'', JStr demoTopic),
         (js ''scenes'', App.scenes previewWorld), (js ''audioData'', JStr (js ''UklGRg'')),
         (js ''title'', JStr (js ''Robot chef'')), (js ''hashtags'', JStr (js ''#robot #cooking''))]) =
      Inr p"
    by (simp add: importedNewProject_def missing_def previewWorld_eval demoTopic_def)
  show ?thesis
    using accepted differ
    by (auto simp: handleImportProject_alone file_values refused null validationMessage_eq
        env_calls)
qed

subsection \<open>Export and import\<close>

lemma kept_JStr [simp]: "kept (JStr s)"
  by (simp add: kept_def)

lemma kept_val_or [simp]: "kept (val_or v (JStr []))"
  by (simp add: kept_def val_or_def)

lemma kept_or_empty [simp]: "kept (or_empty x)"
  by (cases x) (simp_all add: or_empty_def)





lemma fst_resumed [simp]: "fst (resumed r k ts) = fst r"
  by (cases r; cases "snd r") auto

lemma fst_spawn [simp]: "fst (spawn r ts) = fst r"
  by (cases r; cases "snd r") auto













subsection \<open>A failing generation\<close>

lemma firstRejection_first:
  assumes "i < length ps" and "ps ! i = Inl e"
    and "\<forall>j \<in> set before. j < length ps \<longrightarrow> (\<exists>v. ps ! j = Inr v)"
  shows "firstRejection (before @ i # rest) ps = Some e"
  using assms by (induction before) auto

lemma Promise_all_first:
  assumes "order = before @ i # after" and "i < length ps" and "ps ! i = Inl e"
    and "\<forall>j \<in> set before. j < length ps \<longrightarrow> (\<exists>v. ps ! j = Inr v)"
  shows "Promise_all order ps = Inl e"
  using firstRejection_first [OF assms(2,3,4), of "after @ [0 ..< length ps]"] assms(1)
  by (simp add: Promise_all_def)

lemma generate_catch_message:
  "message e \<noteq> [] \<Longrightarrow> generate_catch e w = (w\<lparr>errorMessage := message e, appState := Error\<rparr>, None)"
  by (simp add: generate_catch_def js_or_def truthy_def)

text \<open>
  C7: a generation that waits at any of its awaits, in any state \<open>w\<close>. When the stage throws
  an error with a message that is not empty, the handler ends there (nothing more is
  awaited) with the error state and that message; but for the loading message, which the
  stage may have set before it threw, nothing else is set. When it is the
  scene analysis that throws, in a generation that runs alone, the state after the run
  has the scenes and the audio reference it had before.
\<close>

theorem generation_failure_surfaces_message:
  assumes "stage_throws env t e" and "message e \<noteq> []"
  shows "snd (resume env t w) = None \<and>
    appState (fst (resume env t w)) = Error \<and>
    errorMessage (fst (resume env t w)) = message e \<and>
    (fst (resume env t w))\<lparr>loadingMessage := loadingMessage w\<rparr> =
      w\<lparr>errorMessage := message e, appState := Error\<rparr> \<and>
    (t = AwaitScenes script \<and> generateScriptFromTopic env topic' = Inr script \<and>
     generateTitleAndHashtags env topic' script = Inr (newTitle, newHashtags) \<longrightarrow>
       handleGenerateVideo env topic' w' =
         w'\<lparr>appState := Error, currentTopic := JStr topic', App.title := JStr newTitle,
            App.hashtags := JStr newHashtags, loadingMessage := js ''Analyzing your script...'',
            errorMessage := message e\<rparr> \<and>
       App.scenes (handleGenerateVideo env topic' w') = App.scenes w' \<and>
       audioUrl (handleGenerateVideo env topic' w') = audioUrl w')"
proof -
  note c = generate_catch_message [OF assms(2)]
  have first: "resume env t w =
      (w\<lparr>loadingMessage := loadingMessage (fst (resume env t w)), errorMessage := message e,
         appState := Error\<rparr>, None)"
  proof (cases t)
    case (AwaitImages script sceneData)
    then obtain i before after where o: "settleOrder env = before @ i # after"
      and i: "i < length sceneData"
      and e: "generateImageForScene env (sceneDescription (sceneData ! i)) = Inl e"
      and b: "\<forall>j \<in> set before. j < length sceneData \<longrightarrow>
        (\<exists>url. generateImageForScene env (sceneDescription (sceneData ! j)) = Inr url)"
      using assms(1) by auto
    have "Promise_all (settleOrder env) (imageRequests env sceneData) = Inl e"
      using o i e b by (intro Promise_all_first [of _ before i after]) (auto simp: imageRequests_def)
    then show ?thesis using AwaitImages by (simp add: images_settled_def c)
  next
    case (AwaitVoiceover spoken)
    then show ?thesis
      using assms(1) by (auto simp: voiceover_settled_def c Let_def)
  next
    case (AwaitDecode decodedBytes audioContext)
    then show ?thesis using assms(1) by (auto simp: decode_settled_def c)
  qed (use assms(1) in \<open>auto simp: script_settled_def title_settled_def scenes_settled_def c\<close>)
  have run: "handleGenerateVideo env topic' w' =
      w'\<lparr>appState := Error, currentTopic := JStr topic', App.title := JStr newTitle,
         App.hashtags := JStr newHashtags, loadingMessage := js ''Analyzing your script...'',
         errorMessage := message e\<rparr>"
    if "t = AwaitScenes script" "generateScriptFromTopic env topic' = Inr script"
      "generateTitleAndHashtags env topic' script = Inr (newTitle, newHashtags)"
    using that assms(1)
    by (simp add: handleGenerateVideo_def handleGenerateVideo_start_def script_settled_def
        title_settled_def scenes_settled_def c)
  obtain m where "resume env t w =
      (w\<lparr>loadingMessage := m, errorMessage := message e, appState := Error\<rparr>, None)"
    using first by blast
  then show ?thesis using run by simp
qed

text \<open>
  The scene analysis answers \<^verbatim>\<open>rate limited\<close>; and both image requests fail, the second
  one first, so that its message is the one shown.
\<close>

theorem generation_failure_witness:
  "stage_throws env_rate_limited (AwaitScenes demoScript :: unit task)
     (JsError (js ''rate limited'')) \<and>
   handleGenerateVideo env_rate_limited demoTopic (initialize env_ok world0) =
     world0\<lparr>dbReady := True, appState := Error, currentTopic := JStr demoTopic,
       App.title := JStr (js ''Robot chef''), App.hashtags := JStr (js ''#robot #cooking''),
       loadingMessage := js ''Analyzing your script...'', errorMessage := js ''rate limited''\<rparr> \<and>
   App.scenes (handleGenerateVideo env_rate_limited demoTopic (initialize env_ok world0)) = JArr [] \<and>
   audioUrl (handleGenerateVideo env_rate_limited demoTopic (initialize env_ok world0)) = [] \<and>
   errorMessage (fst (resume env_images_fail
     (AwaitImages demoScript
        [\<lparr>sceneDescription = js ''kitchen'', searchQuery = js ''robot kitchen'', duration = 5\<rparr>,
         \<lparr>sceneDescription = js ''table'', searchQuery = js ''dinner table'', duration = 7\<rparr>]
      :: unit task) loadingWorld)) = js ''fail '' @ js ''table'' \<and>
   appState (fst (resume env_images_fail
     (AwaitImages demoScript
        [\<lparr>sceneDescription = js ''kitchen'', searchQuery = js ''robot kitchen'', duration = 5\<rparr>,
         \<lparr>sceneDescription = js ''table'', searchQuery = js ''dinner table'', duration = 7\<rparr>]
      :: unit task) loadingWorld)) = Error"
proof -
  have mount: "initialize env_ok world0 = world0\<lparr>dbReady := True\<rparr>"
    by (simp add: initialize_def initDB_settled_def projects_settled_def env_ok_def world0_def)
  have analysis: "stage_throws env_rate_limited (AwaitScenes demoScript :: unit task)
      (JsError (js ''rate limited''))"
    by (simp add: env_rate_limited_def)
  have calls: "generateScriptFromTopic env_rate_limited demoTopic = Inr demoScript"
    "generateTitleAndHashtags env_rate_limited demoTopic demoScript =
       Inr (js ''Robot chef'', js ''#robot #cooking'')"
    by (simp_all add: env_rate_limited_def env_ok_def)
  have "settleOrder env_images_fail = [] @ 1 # [0]"
    by (simp add: env_images_fail_def env_ok_def)
  then have images: "stage_throws env_images_fail
      (AwaitImages demoScript
        [\<lparr>sceneDescription = js ''kitchen'', searchQuery = js ''robot kitchen'', duration = 5\<rparr>,
         \<lparr>sceneDescription = js ''table'', searchQuery = js ''dinner table'', duration = 7\<rparr>]
       :: unit task) (JsError (js ''fail '' @ js ''table''))"
    unfolding stage_throws.simps
    by (intro exI [of _ 1] exI [of _ "[]"] exI [of _ "[0]"])
      (simp add: env_images_fail_def env_ok_def)
  show ?thesis
    using generation_failure_surfaces_message
        [OF analysis, where w = "world0\<lparr>dbReady := True\<rparr>" and w' = "world0\<lparr>dbReady := True\<rparr>"
          and script = demoScript and topic' = demoTopic and newTitle = "js ''Robot chef''"
          and newHashtags = "js ''#robot #cooking''"]
      generation_failure_surfaces_message
        [OF images, where w = loadingWorld and script = demoScript and topic' = demoTopic]
    by (simp add: mount calls) (simp add: world0_def env_rate_limited_def)
qed

subsection \<open>The presentation states\<close>

lemma resume_edges:
  assumes "appState w = viewOf t"
  shows "alone (resumed (resume env t w) 0 [t]) \<and>
    (appState (fst (resume env t w)) = appState w \<or>
     (appState w, appState (fst (resume env t w))) \<in> set edges)"
proof (cases t)
  case (AwaitVoiceover spoken)
  then show ?thesis
    using assms
    by (auto simp: voiceover_settled_def generate_catch_def edges_def Let_def split: sum.splits)
next
  case (AwaitFile r)
  then show ?thesis
    using assms
    by (auto simp: file_settled_def import_catch_def edges_def split: sum.splits read_result.splits)
qed (use assms in \<open>auto simp: segment_defs edges_def Let_def split: sum.splits\<close>)

lemma react_edges:
  assumes "alone s" and "inTurn s e"
  shows "alone (react e s) \<and>
    (appState (fst (react e s)) = appState (fst s) \<or>
     (appState (fst s), appState (fst (react e s))) \<in> set edges) \<and>
    (appState (fst s) = Error \<longrightarrow> e = Restart) \<and>
    (e = Restart \<longrightarrow> appState (fst (react e s)) = Idle)"
proof (cases s)
  case (Pair w ts)
  show ?thesis
  proof (cases ts)
    case Nil
    show ?thesis
    proof (cases e)
      case (Generate topic')
      then show ?thesis
        using assms Pair Nil by (simp add: handleGenerateVideo_start_def edges_def)
    next
      case Restart
      then show ?thesis
        using assms Pair Nil by (auto simp: handleRestart_def edges_def)
    next
      case Save
      then show ?thesis
        using assms Pair Nil by (simp add: handleSaveProject_start_def)
    next
      case (Load env project)
      then show ?thesis
        using assms Pair Nil by (auto simp: handleLoadProject_def edges_def split: sum.splits)
    next
      case (Delete ident)
      then show ?thesis
        using assms Pair Nil by (simp add: handleDeleteProject_start_def)
    next
      case (Export env project)
      then show ?thesis
        using assms Pair Nil
        by (auto simp: handleExportProject_def export_catch_def edges_def Let_def
            split: sum.splits jsval.splits)
    next
      case (ChooseFile chosen)
      then show ?thesis
        using assms Pair Nil by (simp add: handleImportProject_start_def split: option.splits)
    next
      case (Resume k env)
      then show ?thesis using assms Pair Nil by simp
    qed
  next
    case (Cons t ts')
    then have ts: "ts = [t]" and view: "appState w = viewOf t"
      using assms(1) Pair by (cases ts'; simp)+
    then obtain k env where e: "e = Resume k env"
      using assms(2) Pair by (cases e) simp_all
    then have k: "k = 0" using assms(2) Pair ts by simp
    have "appState w \<noteq> Error" using view by (cases t) simp_all
    then show ?thesis
      using resume_edges [OF view, of env] Pair ts e k by simp
  qed
qed

lemma playInTurn_alone:
  "playInTurn es s = Some s' \<Longrightarrow> alone s \<Longrightarrow> alone s'"
proof (induction es arbitrary: s)
  case Nil
  then show ?case by simp
next
  case (Cons e es)
  then show ?case using react_edges [of s e] by (auto split: if_splits)
qed

lemma alone_sys0: "alone sys0"
  by (simp add: sys0_def world0_def)

text \<open>
  C4, when no handler overlaps another: from the mounting of the component on, each
  handler is called only when nothing is awaited, and what is awaited settles. Then every
  step leaves the presentation state as it is or changes it along one of the eight edges
  of \<open>edges\<close>: idle to loading, loading to preview, loading to error, idle to preview (a
  project is loaded), idle to error, preview to error (a save fails), preview to idle and
  error to idle (restart). In the error state nothing but a restart can happen, and a
  restart leads to idle.
\<close>

theorem presentation_state_edges:
  assumes "playInTurn es sys0 = Some s" and "inTurn s e"
  shows "(appState (fst (react e s)) = appState (fst s) \<or>
          (appState (fst s), appState (fst (react e s))) \<in> set edges) \<and>
         (appState (fst s) = Error \<longrightarrow> e = Restart) \<and>
         (e = Restart \<longrightarrow> appState (fst (react e s)) = Idle)"
proof -
  have "alone s" using assms(1) alone_sys0 by (rule playInTurn_alone)
  then show ?thesis using react_edges [OF _ assms(2)] by simp
qed

lemma playInTurn_append:
  "playInTurn (es @ fs) s = (case playInTurn es s of None \<Rightarrow> None | Some s' \<Rightarrow> playInTurn fs s')"
  by (induction es arbitrary: s) simp_all

lemma inTurn_to_preview: "playInTurn toPreview sys0 = Some (previewWorld, [])"
  unfolding previewWorld_eval
  by (simp add: toPreview_def sys0_def segment_defs world0_def env_ok_def imageRequests_def
      Promise_all_two finalScenes_def upt_rec numeral_2_eq_2)

lemma previewWorld_fields:
  "appState previewWorld = Preview" "audioUrl previewWorld = js ''blob:wave''"
  "projects previewWorld = []" "dbCalls previewWorld = []"
  by (simp_all add: previewWorld_eval)

lemma save_guard_previewWorld:
  "handleSaveProject_start previewWorld = (previewWorld, Some (AwaitBase64 previewWorld))"
  by (simp add: handleSaveProject_start_def truthy_def previewWorld_eval demoTopic_def)

lemma inTurn_saving:
  "playInTurn [Save, Resume 0 env_ok] (previewWorld, []) =
     Some (previewWorld\<lparr>dbCalls := [PutProject demoProject]\<rparr>, [AwaitSavePut [] demoProject])"
  by (simp add: save_guard_previewWorld previewWorld_fields base64_settled_def env_calls
      demoProject_def [symmetric] Let_def)

lemma save_refused:
  "react (Resume 0 env_store_down)
     (previewWorld\<lparr>dbCalls := [PutProject demoProject]\<rparr>, [AwaitSavePut [] demoProject]) =
   (errorWorld, [])"
  by (simp add: savePut_settled_def save_catch_def env_calls errorWorld_eval)

text \<open>
  The generated preview is saved and the store refuses the record: the one step in turn
  that is left, the settling of the put, leads from the preview to the error state.
\<close>

theorem presentation_state_edges_witness:
  "playInTurn (toPreview @ [Save, Resume 0 env_ok]) sys0 =
     Some (previewWorld\<lparr>dbCalls := [PutProject demoProject]\<rparr>, [AwaitSavePut [] demoProject]) \<and>
   inTurn (previewWorld\<lparr>dbCalls := [PutProject demoProject]\<rparr>, [AwaitSavePut [] demoProject])
     (Resume 0 env_store_down) \<and>
   appState (previewWorld\<lparr>dbCalls := [PutProject demoProject]\<rparr>) = Preview \<and>
   react (Resume 0 env_store_down)
     (previewWorld\<lparr>dbCalls := [PutProject demoProject]\<rparr>, [AwaitSavePut [] demoProject]) =
     (errorWorld, []) \<and>
   appState errorWorld = Error \<and> (Preview, Error) \<in> set edges"
proof -
  have run: "playInTurn (toPreview @ [Save, Resume 0 env_ok]) sys0 =
     Some (previewWorld\<lparr>dbCalls := [PutProject demoProject]\<rparr>, [AwaitSavePut [] demoProject])"
    by (simp only: playInTurn_append inTurn_to_preview option.case inTurn_saving)
  have turn: "inTurn (previewWorld\<lparr>dbCalls := [PutProject demoProject]\<rparr>,
      [AwaitSavePut [] demoProject]) (Resume 0 env_store_down :: (unit, unit) event)"
    by simp
  show ?thesis
    using presentation_state_edges [OF run turn]
    unfolding save_refused
    by (simp add: run previewWorld_fields errorWorld_eval edges_def)
qed

lemma inTurn_load:
  "playInTurn [Save, Resume 0 env_ok, Resume 0 env_ok, Restart, Load env_ok demoProject]
     (previewWorld, []) =
   Some (handleLoadProject env_ok demoProject libraryWorld, [])"
proof -
  have "playInTurn [Save, Resume 0 env_ok, Resume 0 env_ok, Restart] (previewWorld, []) =
      Some (handleRestart
        (previewWorld\<lparr>dbCalls := [PutProject demoProject], projects := [demoProject]\<rparr>), [])"
    by (simp add: save_guard_previewWorld previewWorld_fields base64_settled_def
        savePut_settled_def env_calls demoProject_def [symmetric] Let_def)
  then have "playInTurn [Save, Resume 0 env_ok, Resume 0 env_ok, Restart] (previewWorld, []) =
      Some (libraryWorld, [])"
    by (simp only: libraryWorld_def save_previewWorld)
  then show ?thesis
    using playInTurn_append [of "[Save, Resume 0 env_ok, Resume 0 env_ok, Restart]"
        "[Load env_ok demoProject]" "(previewWorld, [])"]
    by (simp add: libraryWorld_fields)
qed

lemma overlapping_generation:
  "map_option (\<lambda>s. (appState (fst s), snd s))
     (play [Resume 0 env_ok, Resume 0 env_ok, ChooseFile (Some (FileText nullFile)),
            Generate demoTopic, Resume 0 env_next] sys0) =
     Some (Error, [AwaitScript demoTopic])"
  "map_option (\<lambda>s. (appState (fst s), snd s))
     (play [Resume 0 env_ok, Resume 0 env_ok, ChooseFile (Some (FileText nullFile)),
            Generate demoTopic, Resume 0 env_next, Resume 0 env_ok, Resume 0 env_ok,
            Resume 0 env_ok, Resume 0 env_ok, Resume 0 env_ok, Resume 0 env_ok] sys0) =
     Some (Preview, [])"
  by (simp_all add: sys0_def segment_defs world0_def env_ok_def imageRequests_def
      Promise_all_two finalScenes_def upt_rec numeral_2_eq_2 nullFile_def JSON_parse_def
      importedNewProject_def)

text \<open>
  Against C4 as stated. With every handler in its turn: a save that the store refuses
  leads from the preview to the error state; a restart leads from the preview to idle;
  loading a saved project leads from idle to the preview. And when handlers overlap, here
  an import that fails while a generation is under way, the generation ends in the preview
  after the error state was shown, without a restart.
\<close>

theorem preview_leaves_to_error_and_idle:
  "playInTurn (toPreview @ [Save, Resume 0 env_ok]) sys0 =
     Some (previewWorld\<lparr>dbCalls := [PutProject demoProject]\<rparr>, [AwaitSavePut [] demoProject]) \<and>
   playInTurn (toPreview @ [Save, Resume 0 env_ok, Resume 0 env_store_down]) sys0 =
     Some (errorWorld, []) \<and>
   appState (previewWorld\<lparr>dbCalls := [PutProject demoProject]\<rparr>) = Preview \<and>
   appState errorWorld = Error \<and> (Preview, Error) \<notin> set spec_edges \<and>
   playInTurn (toPreview @ [Restart]) sys0 = Some (handleRestart previewWorld, []) \<and>
   appState (handleRestart previewWorld) = Idle \<and> (Preview, Idle) \<notin> set spec_edges \<and>
   playInTurn (toPreview @ [Save, Resume 0 env_ok, Resume 0 env_ok, Restart]) sys0 =
     Some (libraryWorld, []) \<and>
   playInTurn (toPreview @ [Save, Resume 0 env_ok, Resume 0 env_ok, Restart,
       Load env_ok demoProject]) sys0 =
     Some (handleLoadProject env_ok demoProject libraryWorld, []) \<and>
   appState libraryWorld = Idle \<and>
   appState (handleLoadProject env_ok demoProject libraryWorld) = Preview \<and>
   (Idle, Preview) \<notin> set spec_edges \<and>
   map_option (\<lambda>s. (appState (fst s), snd s))
     (play [Resume 0 env_ok, Resume 0 env_ok, ChooseFile (Some (FileText nullFile)),
            Generate demoTopic, Resume 0 env_next] sys0) =
     Some (Error, [AwaitScript demoTopic]) \<and>
   map_option (\<lambda>s. (appState (fst s), snd s))
     (play [Resume 0 env_ok, Resume 0 env_ok, ChooseFile (Some (FileText nullFile)),
            Generate demoTopic, Resume 0 env_next, Resume 0 env_ok, Resume 0 env_ok,
            Resume 0 env_ok, Resume 0 env_ok, Resume 0 env_ok, Resume 0 env_ok] sys0) =
     Some (Preview, []) \<and>
   (Error, Preview) \<notin> set edges"
proof -
  have a: "playInTurn (toPreview @ [Save, Resume 0 env_ok]) sys0 =
     Some (previewWorld\<lparr>dbCalls := [PutProject demoProject]\<rparr>, [AwaitSavePut [] demoProject])"
    by (simp only: playInTurn_append inTurn_to_preview option.case inTurn_saving)
  have "playInTurn ((toPreview @ [Save, Resume 0 env_ok]) @ [Resume 0 env_store_down]) sys0 =
     Some (errorWorld, [])"
    unfolding playInTurn_append [of "toPreview @ [Save, Resume 0 env_ok]"] a
    by (simp add: save_refused del: react.simps)
  then have b: "playInTurn (toPreview @ [Save, Resume 0 env_ok, Resume 0 env_store_down]) sys0 =
     Some (errorWorld, [])"
    by simp
  have c: "playInTurn (toPreview @ [Restart]) sys0 = Some (handleRestart previewWorld, [])"
    unfolding playInTurn_append inTurn_to_preview by (simp add: previewWorld_fields)
  have d: "playInTurn (toPreview @ [Save, Resume 0 env_ok, Resume 0 env_ok, Restart,
       Load env_ok demoProject]) sys0 =
     Some (handleLoadProject env_ok demoProject libraryWorld, [])"
    by (simp only: playInTurn_append inTurn_to_preview option.case inTurn_load)
  have "playInTurn [Save, Resume 0 env_ok, Resume 0 env_ok, Restart] (previewWorld, []) =
      Some (handleRestart
        (previewWorld\<lparr>dbCalls := [PutProject demoProject], projects := [demoProject]\<rparr>), [])"
    by (simp add: save_guard_previewWorld previewWorld_fields base64_settled_def
        savePut_settled_def env_calls demoProject_def [symmetric] Let_def)
  then have e: "playInTurn (toPreview @ [Save, Resume 0 env_ok, Resume 0 env_ok, Restart]) sys0 =
     Some (libraryWorld, [])"
    by (simp only: playInTurn_append inTurn_to_preview option.case libraryWorld_def
        save_previewWorld)
  have f: "appState (handleLoadProject env_ok demoProject libraryWorld) = Preview"
    "appState (handleRestart previewWorld) = Idle"
    by (simp_all add: handleLoadProject_def env_calls handleRestart_def)
  show ?thesis
    unfolding a b c d e overlapping_generation
    by (simp add: f previewWorld_fields libraryWorld_fields errorWorld_eval spec_edges_def
        edges_def)
qed

end
